theory Spec2Isabelle
  imports Complex_Main
begin

section \<open>Values shared by the stores\<close>

text \<open>
  The four stores of the application (\<^verbatim>\<open>store/auth.ts\<close>, \<^verbatim>\<open>store/staff.ts\<close>,
  \<^verbatim>\<open>store/index.ts\<close> and the location store) are zustand containers: a record of
  fields and a set of async operations that call the backend and then \<^verbatim>\<open>set\<close> some
  fields. The embedding keeps the fields as records, makes every \<^verbatim>\<open>await\<close> a branch on
  what the awaited promise does (it rejects or it resolves), and keeps every effect that
  leaves the store (backend requests, toast notifications, clock reads) in a log.

  A JavaScript number is a double: a finite value, \<^verbatim>\<open>NaN\<close> or an infinity. A finite value is
  kept as the real it denotes; sums and differences are rounded by the runtime, whose
  rounding is a parameter. Negative zero is not kept apart from zero. Enumerated string
  types (roles, statuses, transaction kinds) stay strings, as they
  are at run time. Opaque payloads that a store only hands on (\<^verbatim>\<open>Partial<MenuItem>\<close>,
  \<^verbatim>\<open>order: any\<close>) are kept as their JSON text.
\<close>

datatype number = Num real | NaN | PosInfinity | NegInfinity

type_synonym json = string

text \<open>
  What a \<^verbatim>\<open>catch\<close> block can receive: an \<^verbatim>\<open>Error\<close>, a \<^verbatim>\<open>TypeError\<close> (both instances of
  \<^verbatim>\<open>Error\<close>, with a message), or a thrown value that is not an instance of \<^verbatim>\<open>Error\<close>, such as
  the plain error object a backend request reports in its result.
\<close>

datatype js_error = Error string | TypeError string | NonError string

text \<open>A \<^verbatim>\<open>Date\<close> is kept as its ISO-8601 text: \<^verbatim>\<open>new Date(iso)\<close> wraps, \<^verbatim>\<open>toISOString\<close> unwraps.\<close>

datatype date = Date string

fun toISOString :: "date \<Rightarrow> string" where
  "toISOString (Date txt) = txt"

text \<open>What an awaited promise does.\<close>

datatype 'a promise = Rejects js_error | Resolves 'a

text \<open>The \<^verbatim>\<open>{ data, error }\<close> object a resolved backend-as-a-service request carries.\<close>

type_synonym 'a sb_result = "js_error option \<times> 'a option"

text \<open>
  \<^verbatim>\<open>x || 0\<close> on an optional number: an undefined \<^verbatim>\<open>x\<close>, zero and \<^verbatim>\<open>NaN\<close> are falsy.
\<close>

fun or0 :: "number option \<Rightarrow> number" where
  "or0 None = Num 0"
| "or0 (Some NaN) = Num 0"
| "or0 (Some x) = x"

text \<open>
  Unary minus, \<^verbatim>\<open>a + b\<close>, \<^verbatim>\<open>a - b\<close> and \<^verbatim>\<open>Math.max(0, x)\<close>. The first argument of the sum and
  of the difference is the rounding of the runtime: it gives the double (or the infinity)
  that stands for a real result.
\<close>

fun js_neg :: "number \<Rightarrow> number" where
  "js_neg (Num a) = Num (- a)"
| "js_neg NaN = NaN"
| "js_neg PosInfinity = NegInfinity"
| "js_neg NegInfinity = PosInfinity"

fun js_add :: "(real \<Rightarrow> number) \<Rightarrow> number \<Rightarrow> number \<Rightarrow> number" where
  "js_add rnd (Num a) (Num b) = rnd (a + b)"
| "js_add rnd NaN b = NaN"
| "js_add rnd a NaN = NaN"
| "js_add rnd PosInfinity NegInfinity = NaN"
| "js_add rnd NegInfinity PosInfinity = NaN"
| "js_add rnd PosInfinity b = PosInfinity"
| "js_add rnd NegInfinity b = NegInfinity"
| "js_add rnd (Num a) b = b"

definition js_sub :: "(real \<Rightarrow> number) \<Rightarrow> number \<Rightarrow> number \<Rightarrow> number" where
  "js_sub rnd a b = js_add rnd a (js_neg b)"

fun js_max0 :: "number \<Rightarrow> number" where
  "js_max0 (Num a) = Num (max 0 a)"
| "js_max0 NaN = NaN"
| "js_max0 PosInfinity = PosInfinity"
| "js_max0 NegInfinity = Num 0"

subsection \<open>Application records (\<^verbatim>\<open>types/index.ts\<close>)\<close>

record User =
  u_id :: string
  u_email :: string
  u_role :: string
  u_name :: string
  restaurantId :: "string option"
  restaurantName :: "string option"
  defaultLocationId :: "string option"
  locationId :: "string option"
  parentUserId :: "string option"
  managedRestaurantIds :: "string list option"
  preferredLanguage :: "string option"
  u_createdAt :: date
  lastLoginAt :: "date option"

text \<open>
  Of a menu item and of an order the stores read the id and the stock, and write the
  order's status fields; the fields no operation touches (image, modifiers, items, ...)
  are left out.
\<close>

record MenuItem =
  mi_id :: string
  mi_name :: string
  description :: string
  price :: number
  category :: string
  isAvailable :: bool
  currentStock :: "number option"
  minStock :: "number option"

record Order =
  order_id :: string
  customerId :: string
  status :: string
  total :: number
  paymentStatus :: string
  orderCreatedAt :: date
  updatedAt :: date

record RestaurantLocation =
  loc_id :: string
  loc_name :: string
  address :: string
  city :: string
  state :: string
  zipCode :: string
  phone :: string
  loc_email :: "string option"
  taxRate :: "number option"
  isActive :: bool
  loc_createdAt :: date
  loc_updatedAt :: date
  restaurant_id :: "string option"

subsection \<open>Payment records built by the POS store\<close>

record OfflinePayment =
  op_id :: string
  op_orderId :: string
  op_amount :: number
  op_paymentMethod :: string
  op_tipAmount :: number
  op_tipPercentage :: "number option"
  op_taxAmount :: "number option"
  op_taxRate :: "number option"
  op_createdAt :: date

text \<open>The object handed to \<^verbatim>\<open>queries.createPayment\<close>.\<close>

record PaymentRequest =
  pr_orderId :: string
  pr_amount :: number
  pr_paymentMethod :: string
  pr_status :: string
  pr_tipAmount :: "number option"
  pr_tipPercentage :: "number option"
  pr_taxAmount :: "number option"
  pr_taxRate :: "number option"

text \<open>The payload queued with \<^verbatim>\<open>OfflineManager.addToQueue('processPayment', ...)\<close>.\<close>

record QueuedPayment =
  qp_orderId :: string
  qp_amount :: number
  qp_paymentMethod :: string
  qp_tipAmount :: "number option"
  qp_tipPercentage :: "number option"
  qp_taxAmount :: "number option"
  qp_taxRate :: "number option"

datatype QueuedOperation = QueuedOperation string QueuedPayment

text \<open>The optional \<^verbatim>\<open>details\<close> of a payment and one entry of a split payment.\<close>

record PaymentDetails =
  d_tipAmount :: "number option"
  d_tipPercentage :: "number option"
  d_taxAmount :: "number option"
  d_taxRate :: "number option"

record SubPayment =
  sp_amount :: number
  sp_method :: string
  sp_tipAmount :: "number option"
  sp_taxAmount :: "number option"

text \<open>\<^verbatim>\<open>details?.f\<close>: undefined when \<^verbatim>\<open>details\<close> is.\<close>

fun opt_field :: "('a \<Rightarrow> 'b option) \<Rightarrow> 'a option \<Rightarrow> 'b option" where
  "opt_field f None = None"
| "opt_field f (Some d) = f d"

subsection \<open>Rows and requests of the backend\<close>

record user_profiles_row =
  col_role :: string
  col_name :: string
  col_restaurant_id :: "string option"
  col_default_location_id :: "string option"
  col_location_id :: "string option"
  col_parent_user_id :: "string option"
  col_managed_restaurant_ids :: "string list option"
  col_preferred_language :: "string option"
  col_created_at :: string
  col_last_login_at :: "string option"

record auth_user =
  au_id :: string
  au_email :: string

record restaurant_locations_row =
  row_id :: string
  row_name :: string
  row_address :: string
  row_city :: string
  row_state :: string
  row_zip_code :: string
  row_phone :: string
  row_email :: "string option"
  row_tax_rate :: "number option"
  row_is_active :: bool
  row_created_at :: string
  row_updated_at :: string
  row_restaurant_id :: "string option"

text \<open>The columns \<^verbatim>\<open>createLocation\<close> inserts and \<^verbatim>\<open>updateLocation\<close> updates.\<close>

record location_insert =
  ins_name :: string
  ins_address :: string
  ins_city :: string
  ins_state :: string
  ins_zip_code :: string
  ins_phone :: string
  ins_email :: "string option"
  ins_tax_rate :: "number option"
  ins_is_active :: bool
  ins_restaurant_id :: string

record location_update =
  upd_name :: "string option"
  upd_address :: "string option"
  upd_city :: "string option"
  upd_state :: "string option"
  upd_zip_code :: "string option"
  upd_phone :: "string option"
  upd_email :: "string option"
  upd_tax_rate :: "number option"
  upd_is_active :: "bool option"
  upd_updated_at :: string

text \<open>
  The filter \<^verbatim>\<open>fetchLocations\<close> puts on its select: none, \<^verbatim>\<open>.eq('restaurant_id', v)\<close> or
  \<^verbatim>\<open>.in('restaurant_id', vs)\<close>.
\<close>

datatype location_filter =
  NoFilter
| EqRestaurant "string option"
| InRestaurants "string list"

text \<open>Every request a store sends to the backend, with its arguments.\<close>

datatype call =
  GetMenuItems
| GetOrders
| GetOfflinePayments
| CreateMenuItem json
| UpdateMenuItem string json
| DeleteMenuItem string
| UpdateMenuItemStock string number string number string "string option" "string option"
| ProcessOfflineQueue
| ProcessOfflinePayments
| CreateOrder json
| UpdateOrderStatus string string
| CreatePayment PaymentRequest
| GetStaffMembers
| CreateStaffMember string string json
| UpdateStaffMember string json
| DeleteStaffMember string
| SignInWithPassword string string
| SelectUserProfile string
| UpdateLastLogin string string
| SelectLocations location_filter
| InsertLocation location_insert
| UpdateLocation string location_update
| DeleteLocation string
| UpdateLocationActive string bool string
| SignUp string string string string
| InsertUserProfile string string string string string
| SignOut
| UpdateUserRole string string string
| UpdatePreferredLanguage string string string
| ResetPasswordForEmail string string

text \<open>
  A notification, \<^verbatim>\<open>toast.success(text)\<close> or \<^verbatim>\<open>toast.error(text)\<close>. A text that the application
  translates, \<^verbatim>\<open>i18next.t(key)\<close>, is kept as its key.
\<close>

datatype toast = ToastSuccess string | ToastError string

section \<open>Store state, effects and control flow\<close>

text \<open>
  Every store has \<^verbatim>\<open>isLoading\<close> and \<^verbatim>\<open>error\<close>. Beside them the embedding keeps what the
  store does to the outside: the backend requests it has sent (oldest first), the
  toasts it has shown, and how often it has read the clock or the random generator.
\<close>

record store =
  isLoading :: bool
  error :: "js_error option"
  calls :: "call list"
  toasts :: "toast list"
  ticks :: nat

text \<open>
  An operation takes the state and returns the state it leaves, with either the value it
  returns (\<open>Inr\<close>) or the error it throws (\<open>Inl\<close>).
\<close>

type_synonym ('w, 'a) action = "'w \<Rightarrow> (js_error + 'a) \<times> 'w"

definition ret :: "'a \<Rightarrow> ('w, 'a) action" where
  "ret x = (\<lambda>w. (Inr x, w))"

definition throw :: "js_error \<Rightarrow> ('w, 'a) action" where
  "throw e = (\<lambda>w. (Inl e, w))"

definition bnd :: "('w, 'a) action \<Rightarrow> ('a \<Rightarrow> ('w, 'b) action) \<Rightarrow> ('w, 'b) action" where
  "bnd m f = (\<lambda>w. case m w of (Inl e, w') \<Rightarrow> (Inl e, w') | (Inr x, w') \<Rightarrow> f x w')"

definition try_catch :: "('w, 'a) action \<Rightarrow> (js_error \<Rightarrow> ('w, 'a) action) \<Rightarrow> ('w, 'a) action" where
  "try_catch body handler =
     (\<lambda>w. case body w of (Inl e, w') \<Rightarrow> handler e w' | (Inr x, w') \<Rightarrow> (Inr x, w'))"

text \<open>zustand's \<^verbatim>\<open>set\<close> and \<^verbatim>\<open>get\<close>.\<close>

definition set_state :: "('w \<Rightarrow> 'w) \<Rightarrow> ('w, unit) action" where
  "set_state f = (\<lambda>w. (Inr (), f w))"

definition get_state :: "('w, 'w) action" where
  "get_state = (\<lambda>w. (Inr w, w))"

text \<open>
  \<^verbatim>\<open>await\<close> of a backend request: the request is logged, and the backend, which has seen
  the requests before it, makes the promise reject or resolve.
\<close>

definition await :: "(call list \<Rightarrow> call \<Rightarrow> 'a promise) \<Rightarrow> call \<Rightarrow> ('w store_scheme, 'a) action" where
  "await backend c =
     (\<lambda>w. case backend (calls w) c of
        Rejects e \<Rightarrow> (Inl e, w\<lparr>calls := calls w @ [c]\<rparr>)
      | Resolves x \<Rightarrow> (Inr x, w\<lparr>calls := calls w @ [c]\<rparr>))"

text \<open>
  The \<^verbatim>\<open>if (error) throw error\<close> that follows a request made through the backend client,
  and the use of \<^verbatim>\<open>data\<close> after it: reading a field of a null \<^verbatim>\<open>data\<close> is a TypeError.
\<close>

fun checked :: "'a sb_result \<Rightarrow> ('w, 'a) action" where
  "checked (Some e, d) = throw e"
| "checked (None, None) = throw (TypeError ''Cannot read properties of null'')"
| "checked (None, Some d) = ret d"

definition show_toast :: "toast \<Rightarrow> ('w store_scheme, unit) action" where
  "show_toast t = (\<lambda>w. (Inr (), w\<lparr>toasts := toasts w @ [t]\<rparr>))"

text \<open>
  The clock and the random generator are read through the environment; each read
  advances \<open>ticks\<close>, so two reads in one operation may differ. The environment also
  gives the rounding of the runtime's arithmetic.
\<close>

record clock_env =
  iso_now :: "nat \<Rightarrow> string"
  date_now_ms :: "nat \<Rightarrow> string"
  random36 :: "nat \<Rightarrow> string"
  round_double :: "real \<Rightarrow> number"

definition new_Date :: "'c clock_env_scheme \<Rightarrow> ('w store_scheme, date) action" where
  "new_Date env = (\<lambda>w. (Inr (Date (iso_now env (ticks w))), w\<lparr>ticks := Suc (ticks w)\<rparr>))"

text \<open>\<^verbatim>\<open>`offline_${Date.now()}_${Math.random().toString(36).substring(2, 9)}`\<close>\<close>

definition offline_id :: "'c clock_env_scheme \<Rightarrow> ('w store_scheme, string) action" where
  "offline_id env =
     (\<lambda>w. (Inr (''offline_'' @ date_now_ms env (ticks w) @ ''_'' @ random36 env (ticks w)),
            w\<lparr>ticks := Suc (ticks w)\<rparr>))"

text \<open>The \<^verbatim>\<open>catch\<close> blocks start with \<^verbatim>\<open>set({ error: error as Error, isLoading: false })\<close>.\<close>

definition record_failure :: "js_error \<Rightarrow> ('w store_scheme, unit) action" where
  "record_failure e = set_state (\<lambda>s. s\<lparr>error := Some e, isLoading := False\<rparr>)"

section \<open>The POS store (\<^verbatim>\<open>store/index.ts\<close>)\<close>

text \<open>
  Every operation \<open>f\<close> is written as its \<^verbatim>\<open>try\<close> block, \<open>f_try\<close>, and the operation itself,
  which runs that block under the \<^verbatim>\<open>catch\<close> block of the source.

  \<^verbatim>\<open>lib/queries\<close> is the backend of this store. Its answers are parameters: for each type
  of answer, a function of the requests sent so far and of the request.
\<close>

record queries_env = clock_env +
  reply_menuItem :: "call list \<Rightarrow> call \<Rightarrow> MenuItem promise"
  reply_menuItems :: "call list \<Rightarrow> call \<Rightarrow> MenuItem list promise"
  reply_order :: "call list \<Rightarrow> call \<Rightarrow> Order promise"
  reply_orders :: "call list \<Rightarrow> call \<Rightarrow> Order list promise"
  reply_offlinePayments :: "call list \<Rightarrow> call \<Rightarrow> OfflinePayment list promise"
  reply_user :: "call list \<Rightarrow> call \<Rightarrow> User promise"
  reply_users :: "call list \<Rightarrow> call \<Rightarrow> User list promise"
  reply_json :: "call list \<Rightarrow> call \<Rightarrow> json promise"
  reply_void :: "call list \<Rightarrow> call \<Rightarrow> unit promise"
  idb_write :: "OfflinePayment list \<Rightarrow> OfflinePayment \<Rightarrow> js_error option"

text \<open>
  The store's fields, with the two local stores it writes to: the payments held by
  \<^verbatim>\<open>lib/indexedDB\<close> and the queue of \<^verbatim>\<open>OfflineManager\<close>.
\<close>

record pos_state = store +
  menuItems :: "MenuItem list"
  orders :: "Order list"
  isOffline :: bool
  offlinePayments :: "OfflinePayment list"
  indexedDB :: "OfflinePayment list"
  offlineQueue :: "QueuedOperation list"

text \<open>
  Modelled from the spec: \<^verbatim>\<open>storeOfflinePayment\<close> of \<^verbatim>\<open>lib/indexedDB\<close>, which is not among
  the sources. It is a durable local write that rejects on a storage-quota or
  unavailable-storage error and appends the payment otherwise.
\<close>

definition storeOfflinePayment :: "'e queries_env_scheme \<Rightarrow> OfflinePayment \<Rightarrow> (pos_state, unit) action" where
  "storeOfflinePayment env p =
     (\<lambda>w. case idb_write env (indexedDB w) p of
        Some e \<Rightarrow> (Inl e, w)
      | None \<Rightarrow> (Inr (), w\<lparr>indexedDB := indexedDB w @ [p]\<rparr>))"

text \<open>
  Modelled from the spec: \<^verbatim>\<open>OfflineManager.addToQueue\<close>, which is not among the sources.
  It appends the named operation and its payload to an ordered queue, synchronously.
\<close>

definition addToQueue :: "string \<Rightarrow> QueuedPayment \<Rightarrow> (pos_state, unit) action" where
  "addToQueue operationName payload =
     set_state (\<lambda>w. w\<lparr>offlineQueue := offlineQueue w @ [QueuedOperation operationName payload]\<rparr>)"

definition initialize_try :: "'e queries_env_scheme \<Rightarrow> (pos_state, unit) action" where
  "initialize_try env =
     bnd (set_state (\<lambda>s. s\<lparr>isLoading := True, error := None\<rparr>)) (\<lambda>_.
     bnd (await (reply_menuItems env) GetMenuItems) (\<lambda>items.
     bnd (await (reply_orders env) GetOrders) (\<lambda>os.
     bnd (await (reply_offlinePayments env) GetOfflinePayments) (\<lambda>ps.
     set_state (\<lambda>s. s\<lparr>menuItems := items, orders := os, offlinePayments := ps,
                         isLoading := False\<rparr>)))))"

definition initialize :: "'e queries_env_scheme \<Rightarrow> (pos_state, unit) action" where
  "initialize env =
     try_catch (initialize_try env)
       (\<lambda>e. record_failure e)"

definition createMenuItem_try :: "'e queries_env_scheme \<Rightarrow> json \<Rightarrow> (pos_state, MenuItem) action" where
  "createMenuItem_try env menuItem =
     bnd (set_state (\<lambda>s. s\<lparr>isLoading := True, error := None\<rparr>)) (\<lambda>_.
     bnd (await (reply_menuItem env) (CreateMenuItem menuItem)) (\<lambda>newItem.
     bnd (set_state (\<lambda>state. state\<lparr>menuItems := menuItems state @ [newItem],
                                    isLoading := False\<rparr>)) (\<lambda>_.
     ret newItem)))"

definition createMenuItem :: "'e queries_env_scheme \<Rightarrow> json \<Rightarrow> (pos_state, MenuItem) action" where
  "createMenuItem env menuItem =
     try_catch (createMenuItem_try env menuItem)
       (\<lambda>e. bnd (record_failure e) (\<lambda>_. throw e))"

definition updateMenuItem_try :: "'e queries_env_scheme \<Rightarrow> string \<Rightarrow> json \<Rightarrow> (pos_state, MenuItem) action" where
  "updateMenuItem_try env menuItemId updates =
     bnd (set_state (\<lambda>s. s\<lparr>isLoading := True, error := None\<rparr>)) (\<lambda>_.
     bnd (await (reply_menuItem env) (UpdateMenuItem menuItemId updates)) (\<lambda>updatedItem.
     bnd (set_state (\<lambda>state. state\<lparr>
            menuItems := map (\<lambda>item. if mi_id item = menuItemId then updatedItem else item)
                             (menuItems state),
            isLoading := False\<rparr>)) (\<lambda>_.
     ret updatedItem)))"

definition updateMenuItem :: "'e queries_env_scheme \<Rightarrow> string \<Rightarrow> json \<Rightarrow> (pos_state, MenuItem) action" where
  "updateMenuItem env menuItemId updates =
     try_catch (updateMenuItem_try env menuItemId updates)
       (\<lambda>e. bnd (record_failure e) (\<lambda>_. throw e))"

definition deleteMenuItem_try :: "'e queries_env_scheme \<Rightarrow> string \<Rightarrow> (pos_state, unit) action" where
  "deleteMenuItem_try env menuItemId =
     bnd (set_state (\<lambda>s. s\<lparr>isLoading := True, error := None\<rparr>)) (\<lambda>_.
     bnd (await (reply_void env) (DeleteMenuItem menuItemId)) (\<lambda>_.
     set_state (\<lambda>state. state\<lparr>
       menuItems := filter (\<lambda>item. mi_id item \<noteq> menuItemId) (menuItems state),
       isLoading := False\<rparr>)))"

definition deleteMenuItem :: "'e queries_env_scheme \<Rightarrow> string \<Rightarrow> (pos_state, unit) action" where
  "deleteMenuItem env menuItemId =
     try_catch (deleteMenuItem_try env menuItemId)
       (\<lambda>e. bnd (record_failure e) (\<lambda>_. throw e))"

text \<open>
  \<^verbatim>\<open>useAuthStore.getState().user?.id\<close> followed by \<^verbatim>\<open>if (!userId) throw\<close>: the id of the
  signed-in user, which must be a non-empty string. The user of the auth store is an
  argument of the operations that read it.
\<close>

definition current_userId :: "User option \<Rightarrow> ('w, string) action" where
  "current_userId authUser =
     (case authUser of
        None \<Rightarrow> throw (Error ''User not authenticated'')
      | Some u \<Rightarrow> if u_id u = [] then throw (Error ''User not authenticated'') else ret (u_id u))"

text \<open>\<^verbatim>\<open>get().menuItems.find(item => item.id === menuItemId)\<close> and the throw when it finds none.\<close>

definition find_menuItem :: "string \<Rightarrow> (pos_state, MenuItem) action" where
  "find_menuItem menuItemId =
     bnd get_state (\<lambda>s.
       case find (\<lambda>item. mi_id item = menuItemId) (menuItems s) of
         None \<Rightarrow> throw (Error ''Menu item not found'')
       | Some menuItem \<Rightarrow> ret menuItem)"

definition replace_menuItem :: "string \<Rightarrow> MenuItem \<Rightarrow> (pos_state, unit) action" where
  "replace_menuItem menuItemId updatedItem =
     set_state (\<lambda>state. state\<lparr>
       menuItems := map (\<lambda>item. if mi_id item = menuItemId then updatedItem else item)
                        (menuItems state),
       isLoading := False\<rparr>)"

definition restockMenuItem_try ::
  "'e queries_env_scheme \<Rightarrow> User option \<Rightarrow> string \<Rightarrow> number \<Rightarrow> string option \<Rightarrow> (pos_state, MenuItem) action" where
  "restockMenuItem_try env authUser menuItemId quantity notes =
     bnd (set_state (\<lambda>s. s\<lparr>isLoading := True, error := None\<rparr>)) (\<lambda>_.
     bnd (find_menuItem menuItemId) (\<lambda>menuItem.
     let current = or0 (currentStock menuItem);
         newStock = js_add (round_double env) current quantity
     in
     bnd (current_userId authUser) (\<lambda>userId.
     bnd (await (reply_menuItem env)
            (UpdateMenuItemStock menuItemId newStock ''restock'' quantity userId notes None))
         (\<lambda>updatedItem.
     bnd (replace_menuItem menuItemId updatedItem) (\<lambda>_.
     ret updatedItem)))))"

definition restockMenuItem ::
  "'e queries_env_scheme \<Rightarrow> User option \<Rightarrow> string \<Rightarrow> number \<Rightarrow> string option \<Rightarrow> (pos_state, MenuItem) action" where
  "restockMenuItem env authUser menuItemId quantity notes =
     try_catch (restockMenuItem_try env authUser menuItemId quantity notes)
       (\<lambda>e. bnd (record_failure e) (\<lambda>_. throw e))"

definition adjustMenuItemStock_try ::
  "'e queries_env_scheme \<Rightarrow> User option \<Rightarrow> string \<Rightarrow> number \<Rightarrow> string option \<Rightarrow> (pos_state, MenuItem) action" where
  "adjustMenuItemStock_try env authUser menuItemId newStock notes =
     bnd (set_state (\<lambda>s. s\<lparr>isLoading := True, error := None\<rparr>)) (\<lambda>_.
     bnd (find_menuItem menuItemId) (\<lambda>menuItem.
     let current = or0 (currentStock menuItem);
         quantityChange = js_sub (round_double env) newStock current
     in
     bnd (current_userId authUser) (\<lambda>userId.
     bnd (await (reply_menuItem env)
            (UpdateMenuItemStock menuItemId newStock ''adjustment'' quantityChange userId notes None))
         (\<lambda>updatedItem.
     bnd (replace_menuItem menuItemId updatedItem) (\<lambda>_.
     ret updatedItem)))))"

definition adjustMenuItemStock ::
  "'e queries_env_scheme \<Rightarrow> User option \<Rightarrow> string \<Rightarrow> number \<Rightarrow> string option \<Rightarrow> (pos_state, MenuItem) action" where
  "adjustMenuItemStock env authUser menuItemId newStock notes =
     try_catch (adjustMenuItemStock_try env authUser menuItemId newStock notes)
       (\<lambda>e. bnd (record_failure e) (\<lambda>_. throw e))"

definition recordWaste_try ::
  "'e queries_env_scheme \<Rightarrow> User option \<Rightarrow> string \<Rightarrow> number \<Rightarrow> string option \<Rightarrow> string option
     \<Rightarrow> (pos_state, MenuItem) action" where
  "recordWaste_try env authUser menuItemId quantity notes reason =
     bnd (set_state (\<lambda>s. s\<lparr>isLoading := True, error := None\<rparr>)) (\<lambda>_.
     bnd (find_menuItem menuItemId) (\<lambda>menuItem.
     let current = or0 (currentStock menuItem);
         newStock = js_max0 (js_sub (round_double env) current quantity)
     in
     bnd (current_userId authUser) (\<lambda>userId.
     bnd (await (reply_menuItem env)
            (UpdateMenuItemStock menuItemId newStock ''waste'' (js_neg quantity) userId notes reason))
         (\<lambda>updatedItem.
     bnd (replace_menuItem menuItemId updatedItem) (\<lambda>_.
     ret updatedItem)))))"

definition recordWaste ::
  "'e queries_env_scheme \<Rightarrow> User option \<Rightarrow> string \<Rightarrow> number \<Rightarrow> string option \<Rightarrow> string option
     \<Rightarrow> (pos_state, MenuItem) action" where
  "recordWaste env authUser menuItemId quantity notes reason =
     try_catch (recordWaste_try env authUser menuItemId quantity notes reason)
       (\<lambda>e. bnd (record_failure e) (\<lambda>_. throw e))"

text \<open>
  The remaining operations of the store start with \<^verbatim>\<open>set({ isLoading: true })\<close>: they
  leave \<^verbatim>\<open>error\<close> as it is. The two sync operations return a result object instead of
  throwing.
\<close>

datatype 'a sync_result = SyncSuccess 'a | SyncFailure js_error

definition syncOfflineData_try :: "'e queries_env_scheme \<Rightarrow> (pos_state, unit sync_result) action" where
  "syncOfflineData_try env =
     bnd (set_state (\<lambda>s. s\<lparr>isLoading := True\<rparr>)) (\<lambda>_.
     bnd (await (reply_void env) ProcessOfflineQueue) (\<lambda>_.
     bnd (await (reply_menuItems env) GetMenuItems) (\<lambda>items.
     bnd (await (reply_orders env) GetOrders) (\<lambda>os.
     bnd (set_state (\<lambda>s. s\<lparr>menuItems := items, orders := os, isLoading := False\<rparr>)) (\<lambda>_.
     ret (SyncSuccess ()))))))"

definition syncOfflineData :: "'e queries_env_scheme \<Rightarrow> (pos_state, unit sync_result) action" where
  "syncOfflineData env =
     try_catch (syncOfflineData_try env)
       (\<lambda>e. bnd (record_failure e) (\<lambda>_. ret (SyncFailure e)))"

definition syncOfflinePayments_try :: "'e queries_env_scheme \<Rightarrow> (pos_state, json sync_result) action" where
  "syncOfflinePayments_try env =
     bnd (set_state (\<lambda>s. s\<lparr>isLoading := True\<rparr>)) (\<lambda>_.
     bnd (await (reply_json env) ProcessOfflinePayments) (\<lambda>result.
     bnd (await (reply_orders env) GetOrders) (\<lambda>os.
     bnd (await (reply_offlinePayments env) GetOfflinePayments) (\<lambda>ps.
     bnd (set_state (\<lambda>s. s\<lparr>orders := os, offlinePayments := ps, isLoading := False\<rparr>)) (\<lambda>_.
     ret (SyncSuccess result))))))"

definition syncOfflinePayments :: "'e queries_env_scheme \<Rightarrow> (pos_state, json sync_result) action" where
  "syncOfflinePayments env =
     try_catch (syncOfflinePayments_try env)
       (\<lambda>e. bnd (record_failure e) (\<lambda>_. ret (SyncFailure e)))"

definition addOrder_try :: "'e queries_env_scheme \<Rightarrow> json \<Rightarrow> (pos_state, json) action" where
  "addOrder_try env order =
     bnd (set_state (\<lambda>s. s\<lparr>isLoading := True\<rparr>)) (\<lambda>_.
     bnd (await (reply_json env) (CreateOrder order)) (\<lambda>result.
     bnd (await (reply_orders env) GetOrders) (\<lambda>os.
     bnd (await (reply_menuItems env) GetMenuItems) (\<lambda>items.
     bnd (set_state (\<lambda>s. s\<lparr>orders := os, menuItems := items, isLoading := False\<rparr>)) (\<lambda>_.
     ret result)))))"

definition addOrder :: "'e queries_env_scheme \<Rightarrow> json \<Rightarrow> (pos_state, json) action" where
  "addOrder env order =
     try_catch (addOrder_try env order)
       (\<lambda>e. bnd (record_failure e) (\<lambda>_. throw e))"

definition updateOrderStatus_try :: "'e queries_env_scheme \<Rightarrow> string \<Rightarrow> string \<Rightarrow> (pos_state, Order) action" where
  "updateOrderStatus_try env orderId newStatus =
     bnd (set_state (\<lambda>s. s\<lparr>isLoading := True\<rparr>)) (\<lambda>_.
     bnd (await (reply_order env) (UpdateOrderStatus orderId newStatus)) (\<lambda>updatedOrder.
     bnd (set_state (\<lambda>state. state\<lparr>
            orders := map (\<lambda>order. if order_id order = orderId then updatedOrder else order)
                          (orders state),
            isLoading := False\<rparr>)) (\<lambda>_.
     ret updatedOrder)))"

definition updateOrderStatus :: "'e queries_env_scheme \<Rightarrow> string \<Rightarrow> string \<Rightarrow> (pos_state, Order) action" where
  "updateOrderStatus env orderId newStatus =
     try_catch (updateOrderStatus_try env orderId newStatus)
       (\<lambda>e. bnd (record_failure e) (\<lambda>_. throw e))"

text \<open>
  The optimistic update of the paid order. The source reads the clock inside the
  \<^verbatim>\<open>map\<close> callback; the embedding reads it once, before the update.
\<close>

definition mark_paid :: "string \<Rightarrow> date \<Rightarrow> Order \<Rightarrow> Order" where
  "mark_paid orderId now order =
     (if order_id order = orderId
      then order\<lparr>status := ''completed'', paymentStatus := ''paid'', updatedAt := now\<rparr>
      else order)"

definition processPayment_try ::
  "'e queries_env_scheme \<Rightarrow> string \<Rightarrow> number \<Rightarrow> string \<Rightarrow> PaymentDetails option \<Rightarrow> (pos_state, unit) action" where
  "processPayment_try env orderId amount paymentMethod details =
     bnd (set_state (\<lambda>s. s\<lparr>isLoading := True\<rparr>)) (\<lambda>_.
     bnd get_state (\<lambda>s.
     if isOffline s then
       bnd (offline_id env) (\<lambda>new_id.
       bnd (new_Date env) (\<lambda>created.
       let offlinePayment = \<lparr>
             op_id = new_id,
             op_orderId = orderId,
             op_amount = amount,
             op_paymentMethod = paymentMethod,
             op_tipAmount = or0 (opt_field d_tipAmount details),
             op_tipPercentage = opt_field d_tipPercentage details,
             op_taxAmount = opt_field d_taxAmount details,
             op_taxRate = opt_field d_taxRate details,
             op_createdAt = created\<rparr>
       in
       bnd (storeOfflinePayment env offlinePayment) (\<lambda>_.
       bnd (new_Date env) (\<lambda>now.
       bnd (set_state (\<lambda>state. state\<lparr>
              offlinePayments := offlinePayments state @ [offlinePayment],
              orders := map (mark_paid orderId now) (orders state),
              isLoading := False\<rparr>)) (\<lambda>_.
       addToQueue ''processPayment'' \<lparr>
         qp_orderId = orderId,
         qp_amount = amount,
         qp_paymentMethod = paymentMethod,
         qp_tipAmount = opt_field d_tipAmount details,
         qp_tipPercentage = opt_field d_tipPercentage details,
         qp_taxAmount = opt_field d_taxAmount details,
         qp_taxRate = opt_field d_taxRate details\<rparr>)))))
     else
       bnd (await (reply_void env) (CreatePayment \<lparr>
              pr_orderId = orderId,
              pr_amount = amount,
              pr_paymentMethod = paymentMethod,
              pr_status = ''completed'',
              pr_tipAmount = opt_field d_tipAmount details,
              pr_tipPercentage = opt_field d_tipPercentage details,
              pr_taxAmount = opt_field d_taxAmount details,
              pr_taxRate = opt_field d_taxRate details\<rparr>)) (\<lambda>_.
       bnd (await (reply_order env) (UpdateOrderStatus orderId ''completed'')) (\<lambda>_.
       bnd (await (reply_orders env) GetOrders) (\<lambda>os.
       set_state (\<lambda>s. s\<lparr>orders := os, isLoading := False\<rparr>))))))"

definition processPayment ::
  "'e queries_env_scheme \<Rightarrow> string \<Rightarrow> number \<Rightarrow> string \<Rightarrow> PaymentDetails option \<Rightarrow> (pos_state, unit) action" where
  "processPayment env orderId amount paymentMethod details =
     try_catch (processPayment_try env orderId amount paymentMethod details)
       (\<lambda>e. bnd (record_failure e) (\<lambda>_. throw e))"

text \<open>The two \<^verbatim>\<open>for (const payment of payments)\<close> loops of \<^verbatim>\<open>processSplitPayment\<close>.\<close>

fun store_split_payments :: "'e queries_env_scheme \<Rightarrow> string \<Rightarrow> SubPayment list \<Rightarrow> (pos_state, unit) action" where
  "store_split_payments env orderId [] = ret ()"
| "store_split_payments env orderId (payment # rest) =
     bnd (offline_id env) (\<lambda>new_id.
     bnd (new_Date env) (\<lambda>created.
     let offlinePayment = \<lparr>
           op_id = new_id,
           op_orderId = orderId,
           op_amount = sp_amount payment,
           op_paymentMethod = sp_method payment,
           op_tipAmount = or0 (sp_tipAmount payment),
           op_tipPercentage = None,
           op_taxAmount = Some (or0 (sp_taxAmount payment)),
           op_taxRate = None,
           op_createdAt = created\<rparr>
     in
     bnd (storeOfflinePayment env offlinePayment) (\<lambda>_.
     bnd (set_state (\<lambda>state. state\<lparr>
            offlinePayments := offlinePayments state @ [offlinePayment]\<rparr>)) (\<lambda>_.
     bnd (addToQueue ''processPayment'' \<lparr>
            qp_orderId = orderId,
            qp_amount = sp_amount payment,
            qp_paymentMethod = sp_method payment,
            qp_tipAmount = sp_tipAmount payment,
            qp_tipPercentage = None,
            qp_taxAmount = sp_taxAmount payment,
            qp_taxRate = None\<rparr>) (\<lambda>_.
     store_split_payments env orderId rest)))))"

definition split_request :: "string \<Rightarrow> SubPayment \<Rightarrow> PaymentRequest" where
  "split_request orderId payment = \<lparr>
     pr_orderId = orderId,
     pr_amount = sp_amount payment,
     pr_paymentMethod = sp_method payment,
     pr_status = ''completed'',
     pr_tipAmount = Some (or0 (sp_tipAmount payment)),
     pr_tipPercentage = None,
     pr_taxAmount = Some (or0 (sp_taxAmount payment)),
     pr_taxRate = None\<rparr>"

fun create_split_payments :: "'e queries_env_scheme \<Rightarrow> string \<Rightarrow> SubPayment list \<Rightarrow> (pos_state, unit) action" where
  "create_split_payments env orderId [] = ret ()"
| "create_split_payments env orderId (payment # rest) =
     bnd (await (reply_void env) (CreatePayment (split_request orderId payment))) (\<lambda>_.
     create_split_payments env orderId rest)"

definition processSplitPayment_try ::
  "'e queries_env_scheme \<Rightarrow> string \<Rightarrow> SubPayment list \<Rightarrow> (pos_state, unit) action" where
  "processSplitPayment_try env orderId payments =
     bnd (set_state (\<lambda>s. s\<lparr>isLoading := True\<rparr>)) (\<lambda>_.
     bnd get_state (\<lambda>s.
     if isOffline s then
       bnd (store_split_payments env orderId payments) (\<lambda>_.
       bnd (new_Date env) (\<lambda>now.
       bnd (set_state (\<lambda>state. state\<lparr>
              orders := map (mark_paid orderId now) (orders state),
              isLoading := False\<rparr>)) (\<lambda>_.
       show_toast (ToastSuccess ''Split payment processed (offline mode)''))))
     else
       bnd (create_split_payments env orderId payments) (\<lambda>_.
       bnd (await (reply_order env) (UpdateOrderStatus orderId ''completed'')) (\<lambda>_.
       bnd (await (reply_orders env) GetOrders) (\<lambda>os.
       bnd (set_state (\<lambda>s. s\<lparr>orders := os, isLoading := False\<rparr>)) (\<lambda>_.
       show_toast (ToastSuccess ''Split payment processed successfully'')))))))"

definition processSplitPayment ::
  "'e queries_env_scheme \<Rightarrow> string \<Rightarrow> SubPayment list \<Rightarrow> (pos_state, unit) action" where
  "processSplitPayment env orderId payments =
     try_catch (processSplitPayment_try env orderId payments)
       (\<lambda>e. bnd (record_failure e) (\<lambda>_. throw e))"

section \<open>The staff store (\<^verbatim>\<open>store/staff.ts\<close>)\<close>

record staff_state = store +
  staffMembers :: "User list"

definition fetchStaffMembers_try :: "'e queries_env_scheme \<Rightarrow> (staff_state, unit) action" where
  "fetchStaffMembers_try env =
     bnd (set_state (\<lambda>s. s\<lparr>isLoading := True, error := None\<rparr>)) (\<lambda>_.
     bnd (await (reply_users env) GetStaffMembers) (\<lambda>members.
     set_state (\<lambda>s. s\<lparr>staffMembers := members, isLoading := False\<rparr>)))"

definition fetchStaffMembers :: "'e queries_env_scheme \<Rightarrow> (staff_state, unit) action" where
  "fetchStaffMembers env =
     try_catch (fetchStaffMembers_try env)
       (\<lambda>e. bnd (record_failure e) (\<lambda>_.
              show_toast (ToastError ''Failed to fetch staff members'')))"

definition createStaffMember_try ::
  "'e queries_env_scheme \<Rightarrow> string \<Rightarrow> string \<Rightarrow> json \<Rightarrow> (staff_state, unit) action" where
  "createStaffMember_try env email password profile =
     bnd (set_state (\<lambda>s. s\<lparr>isLoading := True, error := None\<rparr>)) (\<lambda>_.
     bnd (await (reply_user env) (CreateStaffMember email password profile)) (\<lambda>newStaffMember.
     bnd (set_state (\<lambda>state. state\<lparr>staffMembers := staffMembers state @ [newStaffMember],
                                    isLoading := False\<rparr>)) (\<lambda>_.
     show_toast (ToastSuccess ''Staff member created successfully''))))"

definition createStaffMember ::
  "'e queries_env_scheme \<Rightarrow> string \<Rightarrow> string \<Rightarrow> json \<Rightarrow> (staff_state, unit) action" where
  "createStaffMember env email password profile =
     try_catch (createStaffMember_try env email password profile)
       (\<lambda>e. bnd (record_failure e) (\<lambda>_.
              show_toast (ToastError ''Failed to create staff member'')))"

definition updateStaffMember_try ::
  "'e queries_env_scheme \<Rightarrow> string \<Rightarrow> json \<Rightarrow> (staff_state, unit) action" where
  "updateStaffMember_try env userId updates =
     bnd (set_state (\<lambda>s. s\<lparr>isLoading := True, error := None\<rparr>)) (\<lambda>_.
     bnd (await (reply_user env) (UpdateStaffMember userId updates)) (\<lambda>updatedStaffMember.
     bnd (set_state (\<lambda>state. state\<lparr>
            staffMembers := map (\<lambda>member. if u_id member = userId then updatedStaffMember
                                            else member)
                                (staffMembers state),
            isLoading := False\<rparr>)) (\<lambda>_.
     show_toast (ToastSuccess ''Staff member updated successfully''))))"

definition updateStaffMember ::
  "'e queries_env_scheme \<Rightarrow> string \<Rightarrow> json \<Rightarrow> (staff_state, unit) action" where
  "updateStaffMember env userId updates =
     try_catch (updateStaffMember_try env userId updates)
       (\<lambda>e. bnd (record_failure e) (\<lambda>_.
              show_toast (ToastError ''Failed to update staff member'')))"

definition deleteStaffMember_try :: "'e queries_env_scheme \<Rightarrow> string \<Rightarrow> (staff_state, unit) action" where
  "deleteStaffMember_try env userId =
     bnd (set_state (\<lambda>s. s\<lparr>isLoading := True, error := None\<rparr>)) (\<lambda>_.
     bnd (await (reply_void env) (DeleteStaffMember userId)) (\<lambda>_.
     bnd (set_state (\<lambda>state. state\<lparr>
            staffMembers := filter (\<lambda>member. u_id member \<noteq> userId) (staffMembers state),
            isLoading := False\<rparr>)) (\<lambda>_.
     show_toast (ToastSuccess ''Staff member deleted successfully''))))"

definition deleteStaffMember :: "'e queries_env_scheme \<Rightarrow> string \<Rightarrow> (staff_state, unit) action" where
  "deleteStaffMember env userId =
     try_catch (deleteStaffMember_try env userId)
       (\<lambda>e. bnd (record_failure e) (\<lambda>_.
              show_toast (ToastError ''Failed to delete staff member'')))"

section \<open>The backend client used by the location and auth stores\<close>

text \<open>
  A request made through the client is awaited; the promise rejects, or resolves with a
  \<^verbatim>\<open>{ data, error }\<close> object. Requests whose \<^verbatim>\<open>data\<close> the stores never read resolve with
  the \<^verbatim>\<open>error\<close> alone.
\<close>

datatype fault = Throws js_error | Reports js_error

record client_env = clock_env +
  restaurant_locations :: "call list \<Rightarrow> restaurant_locations_row list"
  select_fault :: "call list \<Rightarrow> fault option"
  reply_location :: "call list \<Rightarrow> call \<Rightarrow> restaurant_locations_row sb_result promise"
  reply_write :: "call list \<Rightarrow> call \<Rightarrow> js_error option promise"
  reply_auth :: "call list \<Rightarrow> call \<Rightarrow> auth_user sb_result promise"
  reply_profile :: "call list \<Rightarrow> call \<Rightarrow> user_profiles_row sb_result promise"
  last_login_result :: "call list \<Rightarrow> call \<Rightarrow> js_error option"
  i18n_changeLanguage :: "string \<Rightarrow> js_error option"
  window_origin :: string

text \<open>
  Modelled from the spec: the hosted relational store behind \<^verbatim>\<open>lib/supabase\<close>, which is not
  among the sources. A select on \<^verbatim>\<open>restaurant_locations\<close> either fails or returns the rows
  of the table that satisfy the filter. \<open>restaurant_locations\<close> gives the table in the
  order that \<^verbatim>\<open>.order('name')\<close> asks for, so the rows returned are in that order. An
  equality filter on an undefined value and a row whose column is null match nothing.
\<close>

fun matches :: "location_filter \<Rightarrow> restaurant_locations_row \<Rightarrow> bool" where
  "matches NoFilter row = True"
| "matches (EqRestaurant None) row = False"
| "matches (EqRestaurant (Some r)) row = (row_restaurant_id row = Some r)"
| "matches (InRestaurants rs) row =
     (case row_restaurant_id row of None \<Rightarrow> False | Some r \<Rightarrow> r \<in> set rs)"

definition select_locations ::
  "'e client_env_scheme \<Rightarrow> location_filter \<Rightarrow> call list \<Rightarrow> call
     \<Rightarrow> restaurant_locations_row list sb_result promise" where
  "select_locations env f = (\<lambda>sent c.
     case select_fault env sent of
       Some (Throws e) \<Rightarrow> Rejects e
     | Some (Reports e) \<Rightarrow> Resolves (Some e, None)
     | None \<Rightarrow> Resolves (None, Some (filter (matches f) (restaurant_locations env sent))))"

text \<open>
  Modelled from the spec: the client of \<^verbatim>\<open>lib/supabase\<close>, which is not among the sources.
  The update of the last login time is a request whose failure is not propagated: the
  awaited request resolves with its \<^verbatim>\<open>{ error }\<close> result, whatever happened to it, and does
  not throw. \<open>last_login_result\<close> gives the \<^verbatim>\<open>error\<close> of that result. (Where a store checks
  the result of a request, a rejected promise and a reported error end in the same
  \<^verbatim>\<open>catch\<close> block, and the environment keeps both.)
\<close>

definition await_result :: "(call list \<Rightarrow> call \<Rightarrow> 'a) \<Rightarrow> call \<Rightarrow> ('w store_scheme, 'a) action" where
  "await_result backend c = (\<lambda>w. (Inr (backend (calls w) c), w\<lparr>calls := calls w @ [c]\<rparr>))"

section \<open>The location store\<close>

record location_state = store +
  selectedLocation :: "RestaurantLocation option"
  locations :: "RestaurantLocation list"

text \<open>The wire record of a location as an application record (snake_case to camelCase).\<close>

definition location_of_row :: "restaurant_locations_row \<Rightarrow> RestaurantLocation" where
  "location_of_row location = \<lparr>
     loc_id = row_id location,
     loc_name = row_name location,
     address = row_address location,
     city = row_city location,
     state = row_state location,
     zipCode = row_zip_code location,
     phone = row_phone location,
     loc_email = row_email location,
     taxRate = row_tax_rate location,
     isActive = row_is_active location,
     loc_createdAt = Date (row_created_at location),
     loc_updatedAt = Date (row_updated_at location),
     restaurant_id = row_restaurant_id location\<rparr>"

text \<open>
  The filter of \<^verbatim>\<open>fetchLocations\<close>. \<^verbatim>\<open>user.managedRestaurantIds\<close> is tested for truth: an
  array, empty or not, is true, a missing one is not.
\<close>

definition location_query :: "User \<Rightarrow> location_filter" where
  "location_query user =
     (if u_role user \<noteq> ''super-admin'' \<and> u_role user \<noteq> ''sub-super-admin''
      then EqRestaurant (restaurantId user)
      else if u_role user = ''sub-super-admin'' \<and> managedRestaurantIds user \<noteq> None
      then InRestaurants (the (managedRestaurantIds user))
      else NoFilter)"

text \<open>
  The selection after the fetch. \<^verbatim>\<open>user.defaultLocationId\<close> is tested for truth, so an
  empty id counts as none. When nothing is found the operation sets nothing.
\<close>

definition default_location :: "User \<Rightarrow> RestaurantLocation list \<Rightarrow> RestaurantLocation option" where
  "default_location user locs =
     (case defaultLocationId user of
        None \<Rightarrow> None
      | Some d \<Rightarrow> if d = [] then None else find (\<lambda>loc. loc_id loc = d) locs)"

definition select_after_fetch :: "User \<Rightarrow> RestaurantLocation list \<Rightarrow> (location_state, unit) action" where
  "select_after_fetch user locs =
     (case default_location user locs of
        Some defaultLocation \<Rightarrow> set_state (\<lambda>s. s\<lparr>selectedLocation := Some defaultLocation\<rparr>)
      | None \<Rightarrow>
          (case find isActive locs of
             Some activeLocation \<Rightarrow> set_state (\<lambda>s. s\<lparr>selectedLocation := Some activeLocation\<rparr>)
           | None \<Rightarrow>
               if length locs > 0
               then set_state (\<lambda>s. s\<lparr>selectedLocation := Some (locs ! 0)\<rparr>)
               else ret ()))"

definition fetchLocations_try :: "'e client_env_scheme \<Rightarrow> User option \<Rightarrow> (location_state, unit) action" where
  "fetchLocations_try env authUser =
     bnd (set_state (\<lambda>s. s\<lparr>isLoading := True, error := None\<rparr>)) (\<lambda>_.
     case authUser of
       None \<Rightarrow> set_state (\<lambda>s. s\<lparr>locations := [], isLoading := False\<rparr>)
     | Some user \<Rightarrow>
         bnd (await (select_locations env (location_query user))
                    (SelectLocations (location_query user))) (\<lambda>res.
         bnd (checked res) (\<lambda>data.
         bnd (set_state (\<lambda>s. s\<lparr>locations := map location_of_row data,
                                 isLoading := False\<rparr>)) (\<lambda>_.
         select_after_fetch user (map location_of_row data)))))"

definition fetchLocations :: "'e client_env_scheme \<Rightarrow> User option \<Rightarrow> (location_state, unit) action" where
  "fetchLocations env authUser =
     try_catch (fetchLocations_try env authUser)
       (\<lambda>e. bnd (record_failure e) (\<lambda>_. show_toast (ToastError ''Failed to fetch locations'')))"

text \<open>
  \<^verbatim>\<open>Partial<RestaurantLocation>\<close>, as far as \<^verbatim>\<open>updateLocation\<close> reads it.
\<close>

record PartialLocation =
  p_name :: "string option"
  p_address :: "string option"
  p_city :: "string option"
  p_state :: "string option"
  p_zipCode :: "string option"
  p_phone :: "string option"
  p_email :: "string option"
  p_taxRate :: "number option"
  p_isActive :: "bool option"

text \<open>The columns \<^verbatim>\<open>updateLocation\<close> writes: the fields of \<^verbatim>\<open>updates\<close> and the time of the update.\<close>

definition location_update_of :: "PartialLocation \<Rightarrow> string \<Rightarrow> location_update" where
  "location_update_of updates updated_at = \<lparr>
     upd_name = p_name updates,
     upd_address = p_address updates,
     upd_city = p_city updates,
     upd_state = p_state updates,
     upd_zip_code = p_zipCode updates,
     upd_phone = p_phone updates,
     upd_email = p_email updates,
     upd_tax_rate = p_taxRate updates,
     upd_is_active = p_isActive updates,
     upd_updated_at = updated_at\<rparr>"

definition createLocation_try ::
  "'e client_env_scheme \<Rightarrow> User option \<Rightarrow> RestaurantLocation \<Rightarrow> (location_state, RestaurantLocation) action" where
  "createLocation_try env authUser location =
     bnd (set_state (\<lambda>s. s\<lparr>isLoading := True, error := None\<rparr>)) (\<lambda>_.
     case (case authUser of None \<Rightarrow> None
           | Some user \<Rightarrow> (case restaurantId user of None \<Rightarrow> None
                          | Some r \<Rightarrow> if r = [] then None else Some r)) of
       None \<Rightarrow> throw (Error ''User not associated with a restaurant'')
     | Some user_restaurantId \<Rightarrow>
         bnd (await (reply_location env) (InsertLocation \<lparr>
                ins_name = loc_name location,
                ins_address = address location,
                ins_city = city location,
                ins_state = state location,
                ins_zip_code = zipCode location,
                ins_phone = phone location,
                ins_email = loc_email location,
                ins_tax_rate = taxRate location,
                ins_is_active = isActive location,
                ins_restaurant_id = user_restaurantId\<rparr>)) (\<lambda>res.
         bnd (checked res) (\<lambda>data.
         bnd (set_state (\<lambda>state. state\<lparr>locations := locations state @ [location_of_row data],
                                        isLoading := False\<rparr>)) (\<lambda>_.
         bnd (show_toast (ToastSuccess ''Location created successfully'')) (\<lambda>_.
         ret (location_of_row data))))))"

definition createLocation ::
  "'e client_env_scheme \<Rightarrow> User option \<Rightarrow> RestaurantLocation \<Rightarrow> (location_state, RestaurantLocation) action" where
  "createLocation env authUser location =
     try_catch (createLocation_try env authUser location)
       (\<lambda>e. bnd (record_failure e) (\<lambda>_.
              bnd (show_toast (ToastError ''Failed to create location'')) (\<lambda>_. throw e)))"

definition updateLocation_try ::
  "'e client_env_scheme \<Rightarrow> string \<Rightarrow> PartialLocation \<Rightarrow> (location_state, RestaurantLocation) action" where
  "updateLocation_try env target updates =
     bnd (set_state (\<lambda>s. s\<lparr>isLoading := True, error := None\<rparr>)) (\<lambda>_.
     bnd (new_Date env) (\<lambda>now.
     bnd (await (reply_location env)
            (UpdateLocation target (location_update_of updates (toISOString now)))) (\<lambda>res.
     bnd (checked res) (\<lambda>data.
     bnd (set_state (\<lambda>state. state\<lparr>
            locations := map (\<lambda>location. if loc_id location = target
                                           then location_of_row data else location)
                             (locations state),
            selectedLocation :=
              (case selectedLocation state of
                 None \<Rightarrow> None
               | Some sel \<Rightarrow> if loc_id sel = target then Some (location_of_row data)
                             else Some sel),
            isLoading := False\<rparr>)) (\<lambda>_.
     bnd (show_toast (ToastSuccess ''Location updated successfully'')) (\<lambda>_.
     ret (location_of_row data)))))))"

definition updateLocation ::
  "'e client_env_scheme \<Rightarrow> string \<Rightarrow> PartialLocation \<Rightarrow> (location_state, RestaurantLocation) action" where
  "updateLocation env target updates =
     try_catch (updateLocation_try env target updates)
       (\<lambda>e. bnd (record_failure e) (\<lambda>_.
              bnd (show_toast (ToastError ''Failed to update location'')) (\<lambda>_. throw e)))"

definition deleteLocation_try :: "'e client_env_scheme \<Rightarrow> string \<Rightarrow> (location_state, unit) action" where
  "deleteLocation_try env target =
     bnd (set_state (\<lambda>s. s\<lparr>isLoading := True, error := None\<rparr>)) (\<lambda>_.
     bnd (await (reply_write env) (DeleteLocation target)) (\<lambda>err.
     case err of
       Some e \<Rightarrow> throw e
     | None \<Rightarrow>
         bnd (set_state (\<lambda>state.
                let newLocations = filter (\<lambda>location. loc_id location \<noteq> target)
                                          (locations state);
                    newSelectedLocation =
                      (case selectedLocation state of
                         None \<Rightarrow> None
                       | Some sel \<Rightarrow>
                           if loc_id sel = target
                           then (if length newLocations > 0 then Some (newLocations ! 0)
                                 else None)
                           else Some sel)
                in state\<lparr>locations := newLocations,
                         selectedLocation := newSelectedLocation,
                         isLoading := False\<rparr>)) (\<lambda>_.
         show_toast (ToastSuccess ''Location deleted successfully''))))"

definition deleteLocation :: "'e client_env_scheme \<Rightarrow> string \<Rightarrow> (location_state, unit) action" where
  "deleteLocation env target =
     try_catch (deleteLocation_try env target)
       (\<lambda>e. bnd (record_failure e) (\<lambda>_.
              bnd (show_toast (ToastError ''Failed to delete location'')) (\<lambda>_. throw e)))"

definition toggleLocationStatus_try :: "'e client_env_scheme \<Rightarrow> string \<Rightarrow> (location_state, unit) action" where
  "toggleLocationStatus_try env target =
     bnd (set_state (\<lambda>s. s\<lparr>isLoading := True, error := None\<rparr>)) (\<lambda>_.
     bnd get_state (\<lambda>s.
     case find (\<lambda>loc. loc_id loc = target) (locations s) of
       None \<Rightarrow> throw (Error ''Location not found'')
     | Some location \<Rightarrow>
         bnd (new_Date env) (\<lambda>now.
         bnd (await (reply_location env)
                (UpdateLocationActive target (\<not> isActive location) (toISOString now))) (\<lambda>res.
         bnd (checked res) (\<lambda>data.
         bnd (set_state (\<lambda>state. state\<lparr>
                locations := map (\<lambda>location. if loc_id location = target
                                               then location_of_row data else location)
                                 (locations state),
                selectedLocation :=
                  (case selectedLocation state of
                     None \<Rightarrow> None
                   | Some sel \<Rightarrow> if loc_id sel = target then Some (location_of_row data)
                                 else Some sel),
                isLoading := False\<rparr>)) (\<lambda>_.
         show_toast (ToastSuccess
           (''Location '' @ (if isActive (location_of_row data) then ''activated''
                             else ''deactivated'') @ '' successfully''))))))))"

definition toggleLocationStatus :: "'e client_env_scheme \<Rightarrow> string \<Rightarrow> (location_state, unit) action" where
  "toggleLocationStatus env target =
     try_catch (toggleLocationStatus_try env target)
       (\<lambda>e. bnd (record_failure e) (\<lambda>_.
              bnd (show_toast (ToastError ''Failed to update location status'')) (\<lambda>_. throw e)))"

section \<open>The auth store (\<^verbatim>\<open>store/auth.ts\<close>)\<close>

text \<open>
  The store's fields, with the language last handed to \<^verbatim>\<open>i18next.changeLanguage\<close>.
\<close>

record auth_state = store +
  isAuthenticated :: bool
  user :: "User option"
  language :: string

text \<open>\<^verbatim>\<open>error instanceof Error ? error.message : fallback\<close>\<close>

fun toast_text :: "string \<Rightarrow> js_error \<Rightarrow> string" where
  "toast_text fallback (Error m) = m"
| "toast_text fallback (TypeError m) = m"
| "toast_text fallback (NonError v) = fallback"

text \<open>\<^verbatim>\<open>x || 'en'\<close> and \<^verbatim>\<open>x ? new Date(x) : undefined\<close> on an optional string.\<close>

definition or_en :: "string option \<Rightarrow> string" where
  "or_en x = (case x of None \<Rightarrow> ''en'' | Some l \<Rightarrow> if l = [] then ''en'' else l)"

definition date_if_set :: "string option \<Rightarrow> date option" where
  "date_if_set x = (case x of None \<Rightarrow> None | Some t \<Rightarrow> if t = [] then None else Some (Date t))"

definition user_of_profile :: "auth_user \<Rightarrow> user_profiles_row \<Rightarrow> User" where
  "user_of_profile authUser profileData = \<lparr>
     u_id = au_id authUser,
     u_email = au_email authUser,
     u_role = col_role profileData,
     u_name = col_name profileData,
     restaurantId = col_restaurant_id profileData,
     restaurantName = None,
     defaultLocationId = col_default_location_id profileData,
     locationId = col_location_id profileData,
     parentUserId = col_parent_user_id profileData,
     managedRestaurantIds = col_managed_restaurant_ids profileData,
     preferredLanguage = Some (or_en (col_preferred_language profileData)),
     u_createdAt = Date (col_created_at profileData),
     lastLoginAt = date_if_set (col_last_login_at profileData)\<rparr>"

text \<open>
  \<^verbatim>\<open>signIn\<close>. The language change is not awaited. The update of the last login time is
  awaited inside the \<^verbatim>\<open>try\<close> block, after the signed-in state has been set, and the result
  it resolves with is not read.
\<close>

definition signIn_try :: "'e client_env_scheme \<Rightarrow> string \<Rightarrow> string \<Rightarrow> (auth_state, unit) action" where
  "signIn_try env email password =
     bnd (set_state (\<lambda>s. s\<lparr>isLoading := True, error := None\<rparr>)) (\<lambda>_.
     bnd (await (reply_auth env) (SignInWithPassword email password)) (\<lambda>(authError, authUser).
     case authError of
       Some e \<Rightarrow> throw e
     | None \<Rightarrow>
         (case authUser of
            None \<Rightarrow> throw (Error ''No user returned from authentication'')
          | Some au \<Rightarrow>
              bnd (await (reply_profile env) (SelectUserProfile (au_id au))) (\<lambda>res.
              bnd (checked res) (\<lambda>profileData.
              bnd (set_state (\<lambda>s. s\<lparr>user := Some (user_of_profile au profileData),
                                     isAuthenticated := True,
                                     isLoading := False,
                                     error := None\<rparr>)) (\<lambda>_.
              bnd (set_state (\<lambda>s. s\<lparr>language :=
                                       or_en (col_preferred_language profileData)\<rparr>)) (\<lambda>_.
              bnd (new_Date env) (\<lambda>now.
              bnd (await_result (last_login_result env)
                     (UpdateLastLogin (au_id au) (toISOString now))) (\<lambda>_.
              show_toast (ToastSuccess ''auth.signIn''))))))))))"

definition signIn :: "'e client_env_scheme \<Rightarrow> string \<Rightarrow> string \<Rightarrow> (auth_state, unit) action" where
  "signIn env email password =
     try_catch (signIn_try env email password)
       (\<lambda>e. bnd (set_state (\<lambda>s. s\<lparr>error := Some e, isLoading := False,
                                   isAuthenticated := False, user := None\<rparr>)) (\<lambda>_.
              show_toast (ToastError (toast_text ''auth.invalidCredentials'' e))))"

definition signUp_try ::
  "'e client_env_scheme \<Rightarrow> string \<Rightarrow> string \<Rightarrow> string \<Rightarrow> string \<Rightarrow> (auth_state, unit) action" where
  "signUp_try env email password name role =
     bnd (set_state (\<lambda>s. s\<lparr>isLoading := True, error := None\<rparr>)) (\<lambda>_.
     bnd (await (reply_auth env) (SignUp email password name role)) (\<lambda>(authError, authUser).
     case authError of
       Some e \<Rightarrow> throw e
     | None \<Rightarrow>
         (case authUser of
            None \<Rightarrow> throw (Error ''No user returned from sign up'')
          | Some au \<Rightarrow>
              bnd (new_Date env) (\<lambda>now.
              bnd (await (reply_write env)
                     (InsertUserProfile (au_id au) (au_email au) name role (toISOString now)))
                  (\<lambda>profileError.
              case profileError of
                Some e \<Rightarrow> throw e
              | None \<Rightarrow>
                  bnd (set_state (\<lambda>s. s\<lparr>isLoading := False\<rparr>)) (\<lambda>_.
                  show_toast (ToastSuccess
                    ''Account created successfully. Please check your email for verification.'')))))))"

definition signUp ::
  "'e client_env_scheme \<Rightarrow> string \<Rightarrow> string \<Rightarrow> string \<Rightarrow> string \<Rightarrow> (auth_state, unit) action" where
  "signUp env email password name role =
     try_catch (signUp_try env email password name role)
       (\<lambda>e. bnd (record_failure e) (\<lambda>_.
              show_toast (ToastError (toast_text ''Failed to create account'' e))))"

definition signOut_try :: "'e client_env_scheme \<Rightarrow> (auth_state, unit) action" where
  "signOut_try env =
     bnd (set_state (\<lambda>s. s\<lparr>isLoading := True, error := None\<rparr>)) (\<lambda>_.
     bnd (await (reply_write env) SignOut) (\<lambda>err.
     case err of
       Some e \<Rightarrow> throw e
     | None \<Rightarrow>
         bnd (set_state (\<lambda>s. s\<lparr>user := None, isAuthenticated := False,
                                 isLoading := False\<rparr>)) (\<lambda>_.
         show_toast (ToastSuccess ''auth.signOut''))))"

definition signOut :: "'e client_env_scheme \<Rightarrow> (auth_state, unit) action" where
  "signOut env =
     try_catch (signOut_try env)
       (\<lambda>e. bnd (record_failure e) (\<lambda>_. show_toast (ToastError ''common.error'')))"

definition updateUserRole_try ::
  "'e client_env_scheme \<Rightarrow> string \<Rightarrow> string \<Rightarrow> (auth_state, unit) action" where
  "updateUserRole_try env userId role =
     bnd (set_state (\<lambda>s. s\<lparr>isLoading := True, error := None\<rparr>)) (\<lambda>_.
     bnd (new_Date env) (\<lambda>now.
     bnd (await (reply_write env) (UpdateUserRole userId role (toISOString now))) (\<lambda>err.
     case err of
       Some e \<Rightarrow> throw e
     | None \<Rightarrow>
         bnd (set_state (\<lambda>state.
                case user state of
                  None \<Rightarrow> state\<lparr>isLoading := False\<rparr>
                | Some u \<Rightarrow>
                    if u_id u = userId
                    then state\<lparr>user := Some (u\<lparr>u_role := role\<rparr>), isLoading := False\<rparr>
                    else state\<lparr>isLoading := False\<rparr>)) (\<lambda>_.
         show_toast (ToastSuccess ''common.success'')))))"

definition updateUserRole ::
  "'e client_env_scheme \<Rightarrow> string \<Rightarrow> string \<Rightarrow> (auth_state, unit) action" where
  "updateUserRole env userId role =
     try_catch (updateUserRole_try env userId role)
       (\<lambda>e. bnd (record_failure e) (\<lambda>_. show_toast (ToastError ''common.error'')))"

definition updateUserLanguage_try :: "'e client_env_scheme \<Rightarrow> string \<Rightarrow> (auth_state, unit) action" where
  "updateUserLanguage_try env lang =
     bnd (set_state (\<lambda>s. s\<lparr>isLoading := True, error := None\<rparr>)) (\<lambda>_.
     case i18n_changeLanguage env lang of
       Some e \<Rightarrow> throw e
     | None \<Rightarrow>
         bnd (set_state (\<lambda>s. s\<lparr>language := lang\<rparr>)) (\<lambda>_.
         bnd get_state (\<lambda>s.
         case user s of
           Some u \<Rightarrow>
             bnd (new_Date env) (\<lambda>now.
             bnd (await (reply_write env)
                    (UpdatePreferredLanguage (u_id u) lang (toISOString now))) (\<lambda>err.
             case err of
               Some e \<Rightarrow> throw e
             | None \<Rightarrow>
                 bnd (set_state (\<lambda>state.
                        case user state of
                          None \<Rightarrow> state\<lparr>isLoading := False\<rparr>
                        | Some v \<Rightarrow> state\<lparr>user := Some (v\<lparr>preferredLanguage := Some lang\<rparr>),
                                          isLoading := False\<rparr>)) (\<lambda>_.
                 show_toast (ToastSuccess ''common.success''))))
         | None \<Rightarrow>
             bnd (set_state (\<lambda>s. s\<lparr>isLoading := False\<rparr>)) (\<lambda>_.
             show_toast (ToastSuccess ''common.success'')))))"

definition updateUserLanguage :: "'e client_env_scheme \<Rightarrow> string \<Rightarrow> (auth_state, unit) action" where
  "updateUserLanguage env lang =
     try_catch (updateUserLanguage_try env lang)
       (\<lambda>e. bnd (record_failure e) (\<lambda>_. show_toast (ToastError ''common.error'')))"

definition resetPasswordForEmail_try :: "'e client_env_scheme \<Rightarrow> string \<Rightarrow> (auth_state, unit) action" where
  "resetPasswordForEmail_try env email =
     bnd (set_state (\<lambda>s. s\<lparr>isLoading := True, error := None\<rparr>)) (\<lambda>_.
     bnd (await (reply_write env)
            (ResetPasswordForEmail email (window_origin env @ ''/reset-password''))) (\<lambda>err.
     case err of
       Some e \<Rightarrow> throw e
     | None \<Rightarrow>
         bnd (set_state (\<lambda>s. s\<lparr>isLoading := False\<rparr>)) (\<lambda>_.
         show_toast (ToastSuccess ''Password reset instructions sent to your email''))))"

definition resetPasswordForEmail :: "'e client_env_scheme \<Rightarrow> string \<Rightarrow> (auth_state, unit) action" where
  "resetPasswordForEmail env email =
     try_catch (resetPasswordForEmail_try env email)
       (\<lambda>e. bnd (record_failure e) (\<lambda>_.
              show_toast (ToastError (toast_text ''Failed to send password reset email'' e))))"

section \<open>The selection after a fetch, in the words of the specification\<close>

text \<open>
  "Prefer the caller's stored default location if it exists among fetched results; else
  the first active location; else the first location of any status; else none."
\<close>

definition spec_selection :: "string option \<Rightarrow> RestaurantLocation list \<Rightarrow> RestaurantLocation option" where
  "spec_selection stored locs =
     (case (case stored of None \<Rightarrow> None | Some d \<Rightarrow> find (\<lambda>loc. loc_id loc = d) locs) of
        Some l \<Rightarrow> Some l
      | None \<Rightarrow>
          (case find isActive locs of
             Some a \<Rightarrow> Some a
           | None \<Rightarrow> (case locs of [] \<Rightarrow> None | l # _ \<Rightarrow> Some l)))"

section \<open>What a failed operation leaves behind\<close>

text \<open>
  \<open>on_failure body operation rethrown shown\<close>: whenever the \<^verbatim>\<open>try\<close> block \<open>body\<close> throws
  an error, the operation records that error in \<^verbatim>\<open>error\<close>, sets \<^verbatim>\<open>isLoading\<close> to false,
  adds exactly the notifications \<open>shown\<close> to those on screen before the call, and either
  throws the error on to its caller (\<open>rethrown\<close>) or returns normally.
\<close>

definition on_failure ::
  "('w store_scheme, 'a) action \<Rightarrow> ('w store_scheme, 'a) action \<Rightarrow> bool \<Rightarrow> (js_error \<Rightarrow> toast list) \<Rightarrow> bool" where
  "on_failure body operation rethrown shown =
     (\<forall>s e. fst (body s) = Inl e \<longrightarrow>
        error (snd (operation s)) = Some e
        \<and> \<not> isLoading (snd (operation s))
        \<and> toasts (snd (operation s)) = toasts s @ shown e
        \<and> (if rethrown then fst (operation s) = Inl e
            else (case fst (operation s) of Inl thrown \<Rightarrow> False | Inr returned \<Rightarrow> True)))"

section \<open>Concrete runs\<close>

text \<open>
  Inputs on which the operations are evaluated below: a menu item with five in stock, an
  unpaid order, a cashier, a backend that accepts every request and a local store that
  accepts every write. The rounding of the example runtime is \<open>Num\<close>: the sums and
  differences of the examples are small integers and halves, which need no rounding.
\<close>

definition burger :: MenuItem where
  "burger = \<lparr>mi_id = ''m1'', mi_name = ''Burger'', description = ''Beef burger'', price = Num 9,
     category = ''mains'', isAvailable = True, currentStock = Some (Num 5), minStock = Some (Num 2)\<rparr>"

definition order1 :: Order where
  "order1 = \<lparr>order_id = ''o1'', customerId = ''c1'', status = ''pending'', total = Num 20,
     paymentStatus = ''pending'', orderCreatedAt = Date ''2024-05-01T10:00:00Z'',
     updatedAt = Date ''2024-05-01T10:00:00Z''\<rparr>"

definition cashier :: User where
  "cashier = \<lparr>u_id = ''u1'', u_email = ''ann@example.com'', u_role = ''cashier'', u_name = ''Ann'',
     restaurantId = Some ''r1'', restaurantName = None, defaultLocationId = None,
     locationId = None, parentUserId = None, managedRestaurantIds = None,
     preferredLanguage = Some ''en'', u_createdAt = Date ''2024-01-01T00:00:00Z'',
     lastLoginAt = None\<rparr>"

definition stamp :: "nat \<Rightarrow> string" where
  "stamp n = ''T'' @ replicate n CHR ''+''"

definition queries_up :: queries_env where
  "queries_up = \<lparr>iso_now = stamp, date_now_ms = stamp, random36 = stamp, round_double = Num,
     reply_menuItem = (\<lambda>sent c. Resolves burger),
     reply_menuItems = (\<lambda>sent c. Resolves [burger]),
     reply_order = (\<lambda>sent c. Resolves order1),
     reply_orders = (\<lambda>sent c. Resolves [order1]),
     reply_offlinePayments = (\<lambda>sent c. Resolves []),
     reply_user = (\<lambda>sent c. Resolves cashier),
     reply_users = (\<lambda>sent c. Resolves [cashier]),
     reply_json = (\<lambda>sent c. Resolves ''{}''),
     reply_void = (\<lambda>sent c. Resolves ()),
     idb_write = (\<lambda>db p. None)\<rparr>"

definition pos0 :: pos_state where
  "pos0 = \<lparr>isLoading = False, error = None, calls = [], toasts = [], ticks = 0,
     menuItems = [burger], orders = [order1], isOffline = False, offlinePayments = [],
     indexedDB = [], offlineQueue = []\<rparr>"

definition pos_offline :: pos_state where
  "pos_offline = pos0\<lparr>isOffline := True\<rparr>"

definition tip3 :: PaymentDetails where
  "tip3 = \<lparr>d_tipAmount = Some (Num 3), d_tipPercentage = Some (Num 15), d_taxAmount = None,
     d_taxRate = None\<rparr>"

definition split2 :: "SubPayment list" where
  "split2 = [\<lparr>sp_amount = Num 12, sp_method = ''cash'', sp_tipAmount = None,
                sp_taxAmount = Some (Num 1)\<rparr>,
             \<lparr>sp_amount = Num 8, sp_method = ''card'', sp_tipAmount = Some (Num 2),
                sp_taxAmount = None\<rparr>]"

definition row_airport :: restaurant_locations_row where
  "row_airport = \<lparr>row_id = ''l1'', row_name = ''Airport'', row_address = ''1 Runway Rd'',
     row_city = ''Springfield'', row_state = ''IL'', row_zip_code = ''62701'',
     row_phone = ''555-0101'', row_email = None, row_tax_rate = Some (Num 8), row_is_active = False,
     row_created_at = ''2024-01-01T00:00:00Z'', row_updated_at = ''2024-01-02T00:00:00Z'',
     row_restaurant_id = Some ''r1''\<rparr>"

definition row_bay :: restaurant_locations_row where
  "row_bay = row_airport\<lparr>row_id := ''l2'', row_name := ''Bay'', row_is_active := True,
     row_restaurant_id := Some ''r2''\<rparr>"

definition row_downtown :: restaurant_locations_row where
  "row_downtown = row_airport\<lparr>row_id := ''l3'', row_name := ''Downtown'', row_is_active := True\<rparr>"

definition profile_ann :: user_profiles_row where
  "profile_ann = \<lparr>col_role = ''cashier'', col_name = ''Ann'', col_restaurant_id = Some ''r1'',
     col_default_location_id = None, col_location_id = None, col_parent_user_id = None,
     col_managed_restaurant_ids = None, col_preferred_language = None,
     col_created_at = ''2024-01-01T00:00:00Z'', col_last_login_at = None\<rparr>"

definition client_up :: client_env where
  "client_up = \<lparr>iso_now = stamp, date_now_ms = stamp, random36 = stamp, round_double = Num,
     restaurant_locations = (\<lambda>sent. [row_airport, row_bay, row_downtown]),
     select_fault = (\<lambda>sent. None),
     reply_location = (\<lambda>sent c. Resolves (None, Some row_downtown)),
     reply_write = (\<lambda>sent c. Resolves None),
     reply_auth = (\<lambda>sent c. Resolves (None, Some \<lparr>au_id = ''u1'', au_email = ''ann@example.com''\<rparr>)),
     reply_profile = (\<lambda>sent c. Resolves (None, Some profile_ann)),
     last_login_result = (\<lambda>sent c. None),
     i18n_changeLanguage = (\<lambda>l. None),
     window_origin = ''https://pos.example.com''\<rparr>"

definition loc0 :: location_state where
  "loc0 = \<lparr>isLoading = False, error = None, calls = [], toasts = [], ticks = 0,
     selectedLocation = None, locations = []\<rparr>"

definition regional :: User where
  "regional = cashier\<lparr>u_id := ''u2'', u_role := ''sub-super-admin'', restaurantId := None,
     managedRestaurantIds := Some [''r2'']\<rparr>"

definition client_vacant :: client_env where
  "client_vacant = client_up\<lparr>restaurant_locations := (\<lambda>sent. [])\<rparr>"

definition loc_selected :: location_state where
  "loc_selected = loc0\<lparr>selectedLocation := Some (location_of_row row_downtown)\<rparr>"

definition client_denied :: client_env where
  "client_denied = client_up\<lparr>reply_auth :=
     (\<lambda>sent c. Resolves (Some (Error ''Invalid login credentials''), None))\<rparr>"

definition client_readonly :: client_env where
  "client_readonly = client_up\<lparr>last_login_result :=
     (\<lambda>sent c. Some (NonError ''permission denied for table user_profiles''))\<rparr>"

definition auth0 :: auth_state where
  "auth0 = \<lparr>isLoading = False, error = None, calls = [], toasts = [], ticks = 0,
     isAuthenticated = False, user = None, language = ''en''\<rparr>"

definition auth_signed_in :: auth_state where
  "auth_signed_in = auth0\<lparr>isAuthenticated := True, user := Some cashier\<rparr>"

definition staff0 :: staff_state where
  "staff0 = \<lparr>isLoading = False, error = None, calls = [], toasts = [], ticks = 0,
     staffMembers = [cashier]\<rparr>"

definition loc1 :: location_state where
  "loc1 = loc0\<lparr>locations := [location_of_row row_airport]\<rparr>"

definition no_updates :: PartialLocation where
  "no_updates = \<lparr>p_name = None, p_address = None, p_city = None, p_state = None,
     p_zipCode = None, p_phone = None, p_email = None, p_taxRate = None, p_isActive = Some True\<rparr>"

definition pos_stale :: pos_state where
  "pos_stale = pos0\<lparr>error := Some (Error ''Network down'')\<rparr>"

text \<open>A backend and a local store that reject every request with the same error.\<close>

definition down :: js_error where
  "down = Error ''offline''"

definition queries_down :: queries_env where
  "queries_down = \<lparr>iso_now = stamp, date_now_ms = stamp, random36 = stamp, round_double = Num,
     reply_menuItem = (\<lambda>sent c. Rejects down),
     reply_menuItems = (\<lambda>sent c. Rejects down),
     reply_order = (\<lambda>sent c. Rejects down),
     reply_orders = (\<lambda>sent c. Rejects down),
     reply_offlinePayments = (\<lambda>sent c. Rejects down),
     reply_user = (\<lambda>sent c. Rejects down),
     reply_users = (\<lambda>sent c. Rejects down),
     reply_json = (\<lambda>sent c. Rejects down),
     reply_void = (\<lambda>sent c. Rejects down),
     idb_write = (\<lambda>db p. Some down)\<rparr>"

definition client_down :: client_env where
  "client_down = \<lparr>iso_now = stamp, date_now_ms = stamp, random36 = stamp, round_double = Num,
     restaurant_locations = (\<lambda>sent. []),
     select_fault = (\<lambda>sent. Some (Throws down)),
     reply_location = (\<lambda>sent c. Rejects down),
     reply_write = (\<lambda>sent c. Rejects down),
     reply_auth = (\<lambda>sent c. Rejects down),
     reply_profile = (\<lambda>sent c. Rejects down),
     last_login_result = (\<lambda>sent c. Some down),
     i18n_changeLanguage = (\<lambda>l. None),
     window_origin = ''https://pos.example.com''\<rparr>"

text \<open>A local store that is full, and a backend that rejects the second request it gets.\<close>

definition queries_full :: queries_env where
  "queries_full = queries_up\<lparr>idb_write := (\<lambda>db p. Some (Error ''QuotaExceededError''))\<rparr>"





text \<open>
  A cashier whose stored default location is the Airport, a cashier whose stored default
  id is the empty string, and a table with a row whose id is the empty string.
\<close>

definition cashier_airport :: User where
  "cashier_airport = cashier\<lparr>defaultLocationId := Some ''l1''\<rparr>"

definition cashier_blank :: User where
  "cashier_blank = cashier\<lparr>defaultLocationId := Some []\<rparr>"

definition row_blank :: restaurant_locations_row where
  "row_blank = row_airport\<lparr>row_id := [], row_name := ''Annex''\<rparr>"

definition client_blank :: client_env where
  "client_blank = client_up\<lparr>restaurant_locations := (\<lambda>sent. [row_blank, row_downtown])\<rparr>"

text \<open>An identity service that refuses with a value that is not an \<^verbatim>\<open>Error\<close> object.\<close>

definition client_refused :: client_env where
  "client_refused = client_up\<lparr>reply_auth :=
     (\<lambda>sent c. Resolves (Some (NonError ''invalid_grant''), None))\<rparr>"

section \<open>Properties\<close>

lemmas monad_defs = ret_def throw_def bnd_def try_catch_def set_state_def get_state_def
  await_def await_result_def show_toast_def new_Date_def offline_id_def record_failure_def

lemma checked_eq:
  "checked (reported, d) w =
     (case reported of
        Some e \<Rightarrow> (Inl e, w)
      | None \<Rightarrow>
          (case d of
             None \<Rightarrow> (Inl (TypeError ''Cannot read properties of null''), w)
           | Some x \<Rightarrow> (Inr x, w)))"
  by (cases reported; cases d) (simp_all add: throw_def ret_def)

subsection \<open>Offline payment\<close>

text \<open>
  C1, as amended. For every order id, amount, payment method and details: when
  \<^verbatim>\<open>processPayment\<close> is called while \<^verbatim>\<open>isOffline\<close> is true, no request is sent to the backend.
  If the local store accepts the write, exactly one payment record is appended to the
  local store and to \<^verbatim>\<open>offlinePayments\<close>, every cached order with the given id gets status
  \<^verbatim>\<open>completed\<close> and payment status \<^verbatim>\<open>paid\<close>, exactly one \<^verbatim>\<open>processPayment\<close> entry is appended
  to the offline queue, and the operation returns. If the local store rejects the write,
  nothing is appended, marked or queued, and the error of the write is recorded in
  \<^verbatim>\<open>error\<close> and thrown to the caller.
\<close>

theorem processPayment_offline:
  fixes env :: "'e queries_env_scheme" and s :: pos_state
    and orderId paymentMethod :: string and amount :: number
    and details :: "PaymentDetails option"
  defines "p \<equiv> \<lparr>
      op_id = ''offline_'' @ date_now_ms env (ticks s) @ ''_'' @ random36 env (ticks s),
      op_orderId = orderId,
      op_amount = amount,
      op_paymentMethod = paymentMethod,
      op_tipAmount = or0 (opt_field d_tipAmount details),
      op_tipPercentage = opt_field d_tipPercentage details,
      op_taxAmount = opt_field d_taxAmount details,
      op_taxRate = opt_field d_taxRate details,
      op_createdAt = Date (iso_now env (Suc (ticks s)))\<rparr>"
  defines "s' \<equiv> snd (processPayment env orderId amount paymentMethod details s)"
  assumes "isOffline s"
  shows "calls s' = calls s
       \<and> (case idb_write env (indexedDB s) p of
             None \<Rightarrow>
               indexedDB s' = indexedDB s @ [p]
               \<and> offlinePayments s' = offlinePayments s @ [p]
               \<and> orders s' =
                   map (\<lambda>order. if order_id order = orderId
                          then order\<lparr>status := ''completed'', paymentStatus := ''paid'',
                                 updatedAt := Date (iso_now env (Suc (Suc (ticks s))))\<rparr>
                          else order)
                       (orders s)
               \<and> offlineQueue s' = offlineQueue s @ [QueuedOperation ''processPayment'' \<lparr>
                    qp_orderId = orderId,
                    qp_amount = amount,
                    qp_paymentMethod = paymentMethod,
                    qp_tipAmount = opt_field d_tipAmount details,
                    qp_tipPercentage = opt_field d_tipPercentage details,
                    qp_taxAmount = opt_field d_taxAmount details,
                    qp_taxRate = opt_field d_taxRate details\<rparr>]
               \<and> fst (processPayment env orderId amount paymentMethod details s) = Inr ()
           | Some e \<Rightarrow>
               indexedDB s' = indexedDB s
               \<and> offlinePayments s' = offlinePayments s
               \<and> orders s' = orders s
               \<and> offlineQueue s' = offlineQueue s
               \<and> error s' = Some e
               \<and> fst (processPayment env orderId amount paymentMethod details s) = Inl e)"
  using assms
  by (simp add: processPayment_def processPayment_try_def storeOfflinePayment_def addToQueue_def
      monad_defs Let_def mark_paid_def split: option.splits)

theorem processPayment_offline_witness:
  "isOffline pos_offline
   \<and> length (indexedDB (snd (processPayment queries_up ''o1'' (Num 20) ''cash'' (Some tip3) pos_offline))) = 1
   \<and> indexedDB (snd (processPayment queries_up ''o1'' (Num 20) ''cash'' (Some tip3) pos_offline)) =
       offlinePayments (snd (processPayment queries_up ''o1'' (Num 20) ''cash'' (Some tip3) pos_offline))
   \<and> map status (orders (snd (processPayment queries_up ''o1'' (Num 20) ''cash'' (Some tip3) pos_offline))) =
       [''completed'']
   \<and> map paymentStatus (orders (snd (processPayment queries_up ''o1'' (Num 20) ''cash'' (Some tip3) pos_offline))) =
       [''paid'']
   \<and> calls (snd (processPayment queries_up ''o1'' (Num 20) ''cash'' (Some tip3) pos_offline)) = []
   \<and> length (offlineQueue (snd (processPayment queries_up ''o1'' (Num 20) ''cash'' (Some tip3) pos_offline))) = 1"
proof -
  have off: "isOffline pos_offline"
    by (simp add: pos_offline_def pos0_def)
  have st: "indexedDB pos_offline = [] \<and> offlinePayments pos_offline = []
            \<and> orders pos_offline = [order1] \<and> calls pos_offline = []
            \<and> offlineQueue pos_offline = []"
    by (simp add: pos_offline_def pos0_def)
  have acc: "\<And>db q. idb_write queries_up db q = None"
    by (simp add: queries_up_def)
  show ?thesis
    using processPayment_offline [where env = queries_up and s = pos_offline
        and orderId = "''o1''" and amount = "Num 20" and paymentMethod = "''cash''"
        and details = "Some tip3", OF off] off st
    by (simp add: acc order1_def)
qed

text \<open>
  The claim as stated has the record appended, the order marked and the operation queued
  whenever the store is offline. With a local store that is full, the write is rejected:
  nothing is appended, the order stays \<^verbatim>\<open>pending\<close>, nothing is queued and the error is
  thrown.
\<close>

theorem processPayment_offline_counterexample:
  "isOffline pos_offline
   \<and> indexedDB (snd (processPayment queries_full ''o1'' (Num 20) ''cash'' (Some tip3) pos_offline)) = []
   \<and> offlinePayments (snd (processPayment queries_full ''o1'' (Num 20) ''cash'' (Some tip3) pos_offline)) = []
   \<and> map status (orders (snd (processPayment queries_full ''o1'' (Num 20) ''cash'' (Some tip3) pos_offline))) =
       [''pending'']
   \<and> map paymentStatus (orders (snd (processPayment queries_full ''o1'' (Num 20) ''cash'' (Some tip3) pos_offline))) =
       [''pending'']
   \<and> offlineQueue (snd (processPayment queries_full ''o1'' (Num 20) ''cash'' (Some tip3) pos_offline)) = []
   \<and> fst (processPayment queries_full ''o1'' (Num 20) ''cash'' (Some tip3) pos_offline) =
       Inl (Error ''QuotaExceededError'')"
  by (simp add: processPayment_def processPayment_try_def storeOfflinePayment_def monad_defs
      queries_full_def queries_up_def pos_offline_def pos0_def order1_def)

subsection \<open>Waste\<close>




subsection \<open>Split payment\<close>






subsection \<open>Fetching locations\<close>

lemma select_after_fetch_eq:
  "select_after_fetch usr locs s =
     (Inr (), s\<lparr>selectedLocation :=
        (case default_location usr locs of
           Some l \<Rightarrow> Some l
         | None \<Rightarrow>
             (case find isActive locs of
                Some a \<Rightarrow> Some a
              | None \<Rightarrow> (case locs of [] \<Rightarrow> selectedLocation s | l # _ \<Rightarrow> Some l)))\<rparr>)"
  by (cases locs) (simp_all add: select_after_fetch_def monad_defs split: option.splits)

lemma fetchLocations_eq:
  assumes "select_fault env (calls s) = None"
  shows "fetchLocations env (Some usr) s =
     (Inr (), s\<lparr>isLoading := False, error := None,
        calls := calls s @ [SelectLocations (location_query usr)],
        locations := map location_of_row
           (filter (matches (location_query usr)) (restaurant_locations env (calls s))),
        selectedLocation :=
          (case default_location usr (map location_of_row
                  (filter (matches (location_query usr)) (restaurant_locations env (calls s)))) of
             Some l \<Rightarrow> Some l
           | None \<Rightarrow>
               (case find isActive (map location_of_row
                  (filter (matches (location_query usr)) (restaurant_locations env (calls s)))) of
                  Some a \<Rightarrow> Some a
                | None \<Rightarrow>
                    (case map location_of_row
                       (filter (matches (location_query usr)) (restaurant_locations env (calls s))) of
                       [] \<Rightarrow> selectedLocation s
                     | l # _ \<Rightarrow> Some l)))\<rparr>)"
  using assms
  by (simp add: fetchLocations_def fetchLocations_try_def select_locations_def monad_defs
      select_after_fetch_eq cong: option.case_cong list.case_cong)

lemma fetchLocations_fetched:
  assumes "select_fault env (calls s) = None"
  shows "locations (snd (fetchLocations env (Some usr) s)) =
           map location_of_row
             (filter (matches (location_query usr)) (restaurant_locations env (calls s)))"
  by (simp add: fetchLocations_eq [OF assms])

text \<open>
  C4. When the fetch succeeds: for a caller whose role is neither \<^verbatim>\<open>super-admin\<close> nor
  \<^verbatim>\<open>sub-super-admin\<close>, every fetched location has the caller's restaurant id; for a
  \<^verbatim>\<open>sub-super-admin\<close> with a non-empty list of managed restaurant ids, the fetched locations
  are exactly the rows of the table whose restaurant id is in that list, in the table's
  order.
\<close>

theorem fetchLocations_filter:
  assumes "select_fault env (calls s) = None"
  shows "(u_role usr \<noteq> ''super-admin'' \<and> u_role usr \<noteq> ''sub-super-admin'' \<longrightarrow>
            (\<forall>l \<in> set (locations (snd (fetchLocations env (Some usr) s))).
               restaurant_id l = restaurantId usr))
       \<and> (u_role usr = ''sub-super-admin'' \<and> managedRestaurantIds usr = Some ids \<and> ids \<noteq> [] \<longrightarrow>
            locations (snd (fetchLocations env (Some usr) s)) =
              map location_of_row
                (filter (\<lambda>row. \<exists>r \<in> set ids. row_restaurant_id row = Some r)
                        (restaurant_locations env (calls s))))"
proof (intro conjI impI)
  assume role: "u_role usr \<noteq> ''super-admin'' \<and> u_role usr \<noteq> ''sub-super-admin''"
  show "\<forall>l \<in> set (locations (snd (fetchLocations env (Some usr) s))).
          restaurant_id l = restaurantId usr"
  proof (cases "restaurantId usr")
    case None
    with role show ?thesis
      by (simp add: fetchLocations_fetched [OF assms] location_query_def)
  next
    case (Some r)
    with role show ?thesis
      by (auto simp: fetchLocations_fetched [OF assms] location_query_def location_of_row_def)
  qed
next
  assume sub: "u_role usr = ''sub-super-admin'' \<and> managedRestaurantIds usr = Some ids \<and> ids \<noteq> []"
  have "matches (InRestaurants ids) = (\<lambda>row. \<exists>r \<in> set ids. row_restaurant_id row = Some r)"
    by (auto simp: fun_eq_iff split: option.splits)
  with sub show "locations (snd (fetchLocations env (Some usr) s)) =
      map location_of_row
        (filter (\<lambda>row. \<exists>r \<in> set ids. row_restaurant_id row = Some r)
                (restaurant_locations env (calls s)))"
    by (simp add: fetchLocations_fetched [OF assms] location_query_def)
qed

theorem fetchLocations_filter_witness:
  "select_fault client_up (calls loc0) = None
   \<and> map loc_name (locations (snd (fetchLocations client_up (Some cashier) loc0))) =
       [''Airport'', ''Downtown'']
   \<and> map restaurant_id (locations (snd (fetchLocations client_up (Some cashier) loc0))) =
       [restaurantId cashier, restaurantId cashier]
   \<and> map loc_name (locations (snd (fetchLocations client_up (Some regional) loc0))) = [''Bay'']"
proof -
  have up: "select_fault client_up (calls loc0) = None"
    by (simp add: client_up_def)
  have tab: "restaurant_locations client_up (calls loc0) = [row_airport, row_bay, row_downtown]"
    by (simp add: client_up_def)
  have c: "u_role cashier \<noteq> ''super-admin'' \<and> u_role cashier \<noteq> ''sub-super-admin''"
    by (simp add: cashier_def)
  have r: "u_role regional = ''sub-super-admin'' \<and> managedRestaurantIds regional = Some [''r2'']
           \<and> [''r2''] \<noteq> ([] :: string list)"
    by (simp add: regional_def)
  have names: "map loc_name (locations (snd (fetchLocations client_up (Some cashier) loc0))) =
       [''Airport'', ''Downtown'']"
    by (simp add: fetchLocations_fetched [OF up] tab location_query_def cashier_def
        location_of_row_def row_airport_def row_bay_def row_downtown_def)
  from fetchLocations_filter [OF up, of cashier "[]"] c
  have "\<forall>l \<in> set (locations (snd (fetchLocations client_up (Some cashier) loc0))).
          restaurant_id l = restaurantId cashier"
    by simp
  moreover from names
  have "length (locations (snd (fetchLocations client_up (Some cashier) loc0))) = 2"
    by (metis length_map length_Cons list.size(3) numeral_2_eq_2)
  ultimately have ids: "map restaurant_id (locations (snd (fetchLocations client_up (Some cashier) loc0))) =
       [restaurantId cashier, restaurantId cashier]"
    by (cases "locations (snd (fetchLocations client_up (Some cashier) loc0))"; simp)
       (rename_tac a as, case_tac as; simp)
  from fetchLocations_filter [OF up, of regional "[''r2'']"] r
  have "map loc_name (locations (snd (fetchLocations client_up (Some regional) loc0))) = [''Bay'']"
    by (simp add: tab location_of_row_def row_airport_def row_bay_def row_downtown_def)
  with up names ids show ?thesis by simp
qed

text \<open>
  C5, as amended. After a successful fetch the selected location is: the fetched location
  whose id is the caller's stored default id, if that id is not empty and occurs among
  the fetched locations; otherwise the first active fetched location; otherwise the first
  fetched location; otherwise, when nothing was fetched, the location that was selected
  before the fetch. A fetch with nobody signed in leaves the selection as it was.
\<close>

theorem fetchLocations_selection:
  assumes "select_fault env (calls s) = None"
  shows "selectedLocation (snd (fetchLocations env (Some usr) s)) =
     (case (case defaultLocationId usr of
              None \<Rightarrow> None
            | Some d \<Rightarrow>
                if d = [] then None
                else find (\<lambda>loc. loc_id loc = d)
                       (locations (snd (fetchLocations env (Some usr) s)))) of
        Some l \<Rightarrow> Some l
      | None \<Rightarrow>
          (case find isActive (locations (snd (fetchLocations env (Some usr) s))) of
             Some a \<Rightarrow> Some a
           | None \<Rightarrow>
               (case locations (snd (fetchLocations env (Some usr) s)) of
                  [] \<Rightarrow> selectedLocation s
                | l # _ \<Rightarrow> Some l)))
     \<and> selectedLocation (snd (fetchLocations env None s)) = selectedLocation s"
proof -
  have none: "selectedLocation (snd (fetchLocations env None s)) = selectedLocation s"
    by (simp add: fetchLocations_def fetchLocations_try_def monad_defs)
  have sel: "selectedLocation (snd (fetchLocations env (Some usr) s)) =
     (case default_location usr (map location_of_row
             (filter (matches (location_query usr)) (restaurant_locations env (calls s)))) of
        Some l \<Rightarrow> Some l
      | None \<Rightarrow>
          (case find isActive (map location_of_row
             (filter (matches (location_query usr)) (restaurant_locations env (calls s)))) of
             Some a \<Rightarrow> Some a
           | None \<Rightarrow>
               (case map location_of_row
                  (filter (matches (location_query usr)) (restaurant_locations env (calls s))) of
                  [] \<Rightarrow> selectedLocation s
                | l # _ \<Rightarrow> Some l)))"
    by (simp add: fetchLocations_eq [OF assms])
  show ?thesis
    unfolding fetchLocations_fetched [OF assms] sel default_location_def
    using none by simp
qed

theorem fetchLocations_selection_witness:
  "select_fault client_up (calls loc0) = None
   \<and> map loc_name (locations (snd (fetchLocations client_up (Some cashier) loc0))) =
       [''Airport'', ''Downtown'']
   \<and> map isActive (locations (snd (fetchLocations client_up (Some cashier) loc0))) =
       [False, True]
   \<and> defaultLocationId cashier = None
   \<and> selectedLocation (snd (fetchLocations client_up (Some cashier) loc0)) =
       Some (location_of_row row_downtown)
   \<and> locations (snd (fetchLocations client_up (Some cashier_airport) loc0)) =
       locations (snd (fetchLocations client_up (Some cashier) loc0))
   \<and> defaultLocationId cashier_airport = Some ''l1''
   \<and> selectedLocation (snd (fetchLocations client_up (Some cashier_airport) loc0)) =
       Some (location_of_row row_airport)"
proof -
  have up: "select_fault client_up (calls loc0) = None"
    by (simp add: client_up_def)
  have tab: "restaurant_locations client_up (calls loc0) = [row_airport, row_bay, row_downtown]"
    by (simp add: client_up_def)
  have locs: "locations (snd (fetchLocations client_up (Some cashier) loc0)) =
      [location_of_row row_airport, location_of_row row_downtown]"
    by (simp add: fetchLocations_eq [OF up] tab location_query_def cashier_def
        row_airport_def row_bay_def row_downtown_def)
  have locs': "locations (snd (fetchLocations client_up (Some cashier_airport) loc0)) =
      [location_of_row row_airport, location_of_row row_downtown]"
    by (simp add: fetchLocations_eq [OF up] tab location_query_def cashier_airport_def cashier_def
        row_airport_def row_bay_def row_downtown_def)
  have first: "selectedLocation (snd (fetchLocations client_up (Some cashier) loc0)) =
       Some (location_of_row row_downtown)"
    using fetchLocations_selection [OF up, of cashier] unfolding locs
    by (simp add: cashier_def location_of_row_def row_airport_def row_downtown_def)
  have stored: "selectedLocation (snd (fetchLocations client_up (Some cashier_airport) loc0)) =
       Some (location_of_row row_airport)"
    using fetchLocations_selection [OF up, of cashier_airport] unfolding locs'
    by (simp add: cashier_airport_def cashier_def location_of_row_def row_airport_def
        row_downtown_def)
  from up locs locs' first stored show ?thesis
    by (simp add: location_of_row_def row_airport_def row_downtown_def cashier_def
        cashier_airport_def)
qed

text \<open>
  The claim as stated ends with "otherwise no location is selected". With a location
  selected before the fetch and an empty result, that location stays selected. And the
  claim as stated selects the stored default whenever its id occurs among the fetched
  locations: with an empty string as the stored id and a fetched location whose id is
  the empty string, the first active location is selected instead.
\<close>

theorem fetchLocations_selection_counterexample:
  "select_fault client_vacant (calls loc_selected) = None
   \<and> locations (snd (fetchLocations client_vacant (Some cashier) loc_selected)) = []
   \<and> spec_selection (defaultLocationId cashier)
        (locations (snd (fetchLocations client_vacant (Some cashier) loc_selected))) = None
   \<and> selectedLocation (snd (fetchLocations client_vacant (Some cashier) loc_selected)) =
        Some (location_of_row row_downtown)
   \<and> select_fault client_blank (calls loc0) = None
   \<and> locations (snd (fetchLocations client_blank (Some cashier_blank) loc0)) =
        [location_of_row row_blank, location_of_row row_downtown]
   \<and> spec_selection (defaultLocationId cashier_blank)
        (locations (snd (fetchLocations client_blank (Some cashier_blank) loc0))) =
        Some (location_of_row row_blank)
   \<and> selectedLocation (snd (fetchLocations client_blank (Some cashier_blank) loc0)) =
        Some (location_of_row row_downtown)"
proof -
  have up: "select_fault client_vacant (calls loc_selected) = None"
    by (simp add: client_vacant_def client_up_def)
  have tab: "restaurant_locations client_vacant (calls loc_selected) = []"
    by (simp add: client_vacant_def)
  have locs: "locations (snd (fetchLocations client_vacant (Some cashier) loc_selected)) = []"
    by (simp add: fetchLocations_eq [OF up] tab)
  have sel: "selectedLocation (snd (fetchLocations client_vacant (Some cashier) loc_selected)) =
      Some (location_of_row row_downtown)"
    by (simp add: fetchLocations_eq [OF up] tab default_location_def cashier_def)
       (simp add: loc_selected_def)
  have up': "select_fault client_blank (calls loc0) = None"
    by (simp add: client_blank_def client_up_def)
  have tab': "restaurant_locations client_blank (calls loc0) = [row_blank, row_downtown]"
    by (simp add: client_blank_def)
  have locs': "locations (snd (fetchLocations client_blank (Some cashier_blank) loc0)) =
      [location_of_row row_blank, location_of_row row_downtown]"
    by (simp add: fetchLocations_eq [OF up'] tab' location_query_def cashier_blank_def cashier_def
        row_blank_def row_airport_def row_downtown_def)
  have sel': "selectedLocation (snd (fetchLocations client_blank (Some cashier_blank) loc0)) =
      Some (location_of_row row_downtown)"
    unfolding fetchLocations_eq [OF up'] tab'
    by (simp add: default_location_def location_query_def cashier_blank_def cashier_def
        location_of_row_def row_blank_def row_airport_def row_downtown_def)
  have spec': "spec_selection (defaultLocationId cashier_blank)
      [location_of_row row_blank, location_of_row row_downtown] = Some (location_of_row row_blank)"
    by (simp add: spec_selection_def cashier_blank_def location_of_row_def row_blank_def)
  from up locs sel up' locs' sel' spec' show ?thesis
    by (simp add: spec_selection_def cashier_def)
qed

subsection \<open>Sign-in\<close>

lemma signIn_caught:
  assumes "fst (signIn_try env email password s) = Inl e"
  shows "signIn env email password s =
     (Inr (), (snd (signIn_try env email password s))\<lparr>error := Some e, isLoading := False,
        isAuthenticated := False, user := None,
        toasts := toasts (snd (signIn_try env email password s)) @ [ToastError (toast_text ''auth.invalidCredentials'' e)]\<rparr>)"
  using assms
  by (cases "signIn_try env email password s")
     (simp add: signIn_def try_catch_def bnd_def set_state_def show_toast_def)

lemma signIn_try_rejected:
  "reply_auth env (calls s) (SignInWithPassword email password) = Resolves (Some e, d) \<Longrightarrow>
   fst (signIn_try env email password s) = Inl e"
  by (simp add: signIn_try_def monad_defs)

text \<open>
  The \<^verbatim>\<open>try\<close> block of \<^verbatim>\<open>signIn\<close> runs to its end exactly when the credentials are accepted
  with a user and the profile is read; in every other case it throws.
\<close>

lemma signIn_try_completes_iff:
  "fst (signIn_try env email password s) = Inr () \<longleftrightarrow>
     (\<exists>au profileData.
        reply_auth env (calls s) (SignInWithPassword email password) = Resolves (None, Some au)
        \<and> reply_profile env (calls s @ [SignInWithPassword email password])
              (SelectUserProfile (au_id au)) = Resolves (None, Some profileData))"
  by (auto simp: signIn_try_def monad_defs checked_eq split: promise.splits option.splits prod.splits)

text \<open>
  C6. Whatever the state before the call and whatever the email and password: if a step of
  the \<^verbatim>\<open>try\<close> block of \<^verbatim>\<open>signIn\<close> throws (rejected credentials are thrown by its first check),
  then after \<^verbatim>\<open>signIn\<close> the store has \<^verbatim>\<open>isAuthenticated = false\<close> and \<^verbatim>\<open>user = null\<close>.
\<close>

theorem signIn_failure_resets:
  assumes "fst (signIn_try env email password s) = Inl e"
  shows "\<not> isAuthenticated (snd (signIn env email password s))
       \<and> user (snd (signIn env email password s)) = None"
  by (simp add: signIn_caught [OF assms])

theorem signIn_failure_resets_witness:
  "fst (signIn_try client_denied ''ann@example.com'' ''wrong'' auth_signed_in) =
     Inl (Error ''Invalid login credentials'')
   \<and> isAuthenticated auth_signed_in
   \<and> user auth_signed_in = Some cashier
   \<and> \<not> isAuthenticated (snd (signIn client_denied ''ann@example.com'' ''wrong'' auth_signed_in))
   \<and> user (snd (signIn client_denied ''ann@example.com'' ''wrong'' auth_signed_in)) = None"
proof -
  have thrown: "fst (signIn_try client_denied ''ann@example.com'' ''wrong'' auth_signed_in) =
     Inl (Error ''Invalid login credentials'')"
    by (rule signIn_try_rejected) (simp add: client_denied_def)
  have "isAuthenticated auth_signed_in \<and> user auth_signed_in = Some cashier"
    by (simp add: auth_signed_in_def auth0_def)
  with signIn_failure_resets [OF thrown] thrown show ?thesis by simp
qed

text \<open>
  C8. In \<^verbatim>\<open>signIn\<close>, once the credentials are accepted and the profile is read, the update
  of the last login time is sent as the last request, and whatever becomes of it (the
  result it reports is not read) the sign-in is not treated as failed: the store stays
  signed in with the user composed from the profile, no error is recorded, the success
  notification is shown, and \<^verbatim>\<open>signIn\<close> returns normally, so nothing is propagated to the
  caller.
\<close>

theorem signIn_last_login_update:
  fixes env :: "'e client_env_scheme" and s :: auth_state and email password :: string
    and au :: auth_user
  defines "s' \<equiv> snd (signIn env email password s)"
  assumes "reply_auth env (calls s) (SignInWithPassword email password) = Resolves (None, Some au)"
      and "reply_profile env (calls s @ [SignInWithPassword email password])
             (SelectUserProfile (au_id au)) = Resolves (None, Some profileData)"
  shows "calls s' = calls s @ [SignInWithPassword email password, SelectUserProfile (au_id au),
                               UpdateLastLogin (au_id au) (iso_now env (ticks s))]
       \<and> user s' = Some (user_of_profile au profileData)
       \<and> isAuthenticated s'
       \<and> error s' = None
       \<and> toasts s' = toasts s @ [ToastSuccess ''auth.signIn'']
       \<and> fst (signIn env email password s) = Inr ()"
  using assms
  by (simp add: signIn_def signIn_try_def monad_defs)

theorem signIn_last_login_update_witness:
  "last_login_result client_readonly
      [SignInWithPassword ''ann@example.com'' ''secret'', SelectUserProfile ''u1'']
      (UpdateLastLogin ''u1'' (stamp 0)) =
      Some (NonError ''permission denied for table user_profiles'')
   \<and> calls (snd (signIn client_readonly ''ann@example.com'' ''secret'' auth0)) =
       [SignInWithPassword ''ann@example.com'' ''secret'', SelectUserProfile ''u1'',
        UpdateLastLogin ''u1'' (stamp 0)]
   \<and> isAuthenticated (snd (signIn client_readonly ''ann@example.com'' ''secret'' auth0))
   \<and> map_option u_id (user (snd (signIn client_readonly ''ann@example.com'' ''secret'' auth0))) = Some ''u1''
   \<and> error (snd (signIn client_readonly ''ann@example.com'' ''secret'' auth0)) = None
   \<and> fst (signIn client_readonly ''ann@example.com'' ''secret'' auth0) = Inr ()"
proof -
  have a: "reply_auth client_readonly (calls auth0) (SignInWithPassword ''ann@example.com'' ''secret'') =
      Resolves (None, Some \<lparr>au_id = ''u1'', au_email = ''ann@example.com''\<rparr>)"
    by (simp add: client_readonly_def client_up_def)
  have p: "reply_profile client_readonly (calls auth0 @ [SignInWithPassword ''ann@example.com'' ''secret''])
      (SelectUserProfile (au_id \<lparr>au_id = ''u1'', au_email = ''ann@example.com''\<rparr>)) =
      Resolves (None, Some profile_ann)"
    by (simp add: client_readonly_def client_up_def)
  have r: "\<And>sent c. last_login_result client_readonly sent c =
      Some (NonError ''permission denied for table user_profiles'')"
    by (simp add: client_readonly_def)
  have t: "calls auth0 = [] \<and> ticks auth0 = 0 \<and> iso_now client_readonly = stamp"
    by (simp add: auth0_def client_readonly_def client_up_def)
  show ?thesis
    using signIn_last_login_update [OF a p]
    by (simp add: r t user_of_profile_def)
qed

subsection \<open>The first step of an operation\<close>

text \<open>
  None of \<^verbatim>\<open>addOrder\<close>, \<^verbatim>\<open>updateOrderStatus\<close>, \<^verbatim>\<open>processPayment\<close>, \<^verbatim>\<open>processSplitPayment\<close>,
  \<^verbatim>\<open>syncOfflineData\<close> and \<^verbatim>\<open>syncOfflinePayments\<close> ever clears an error that the store holds.
\<close>

lemma create_split_payments_error:
  "error (snd (create_split_payments env orderId payments w)) = error w"
  by (induction payments arbitrary: w)
     (auto simp: monad_defs split: promise.splits prod.splits sum.splits)

lemma store_split_payments_error:
  "error (snd (store_split_payments env orderId payments w)) = error w"
  by (induction payments arbitrary: w)
     (auto simp: monad_defs storeOfflinePayment_def addToQueue_def Let_def
        split: promise.splits prod.splits sum.splits option.splits)

lemma error_never_cleared:
  assumes "error s \<noteq> None"
  shows "error (snd (addOrder env order s)) \<noteq> None"
    and "error (snd (updateOrderStatus env orderId newStatus s)) \<noteq> None"
    and "error (snd (processPayment env orderId amount paymentMethod details s)) \<noteq> None"
    and "error (snd (syncOfflineData env s)) \<noteq> None"
    and "error (snd (syncOfflinePayments env s)) \<noteq> None"
  using assms
  by (auto simp: addOrder_def addOrder_try_def updateOrderStatus_def updateOrderStatus_try_def
      processPayment_def processPayment_try_def syncOfflineData_def syncOfflineData_try_def
      syncOfflinePayments_def syncOfflinePayments_try_def storeOfflinePayment_def addToQueue_def
      Let_def monad_defs split: promise.splits option.splits)

lemma error_never_cleared_split:
  assumes "error s \<noteq> None"
  shows "error (snd (processSplitPayment env orderId payments s)) \<noteq> None"
proof -
  let ?s1 = "s\<lparr>isLoading := True\<rparr>"
  have a: "error (snd (create_split_payments env orderId payments ?s1)) = error s"
    by (simp add: create_split_payments_error)
  have b: "error (snd (store_split_payments env orderId payments ?s1)) = error s"
    by (simp add: store_split_payments_error)
  show ?thesis
    using assms a b
    by (auto simp: processSplitPayment_def processSplitPayment_try_def monad_defs
        split: promise.splits prod.splits sum.splits if_splits)
qed

text \<open>
  C9 says that every operation starts by clearing \<^verbatim>\<open>error\<close>. Six operations of the POS
  store start with \<^verbatim>\<open>set({ isLoading: true })\<close> alone: run from a state that holds an
  error, against a backend that accepts every request, each of them succeeds and leaves
  the old error in place, while \<^verbatim>\<open>createMenuItem\<close> of the same store clears it.
\<close>

theorem stale_error_survives:
  "error pos_stale = Some (Error ''Network down'')
   \<and> fst (addOrder queries_up ''{}'' pos_stale) = Inr ''{}''
   \<and> error (snd (addOrder queries_up ''{}'' pos_stale)) = Some (Error ''Network down'')
   \<and> error (snd (updateOrderStatus queries_up ''o1'' ''ready'' pos_stale)) = Some (Error ''Network down'')
   \<and> error (snd (processPayment queries_up ''o1'' (Num 20) ''cash'' None pos_stale)) = Some (Error ''Network down'')
   \<and> error (snd (processSplitPayment queries_up ''o1'' split2 pos_stale)) = Some (Error ''Network down'')
   \<and> error (snd (syncOfflineData queries_up pos_stale)) = Some (Error ''Network down'')
   \<and> error (snd (syncOfflinePayments queries_up pos_stale)) = Some (Error ''Network down'')
   \<and> error (snd (createMenuItem queries_up ''{}'' pos_stale)) = None"
  by (simp add: addOrder_def addOrder_try_def updateOrderStatus_def updateOrderStatus_try_def
      processPayment_def processPayment_try_def processSplitPayment_def processSplitPayment_try_def
      syncOfflineData_def syncOfflineData_try_def syncOfflinePayments_def syncOfflinePayments_try_def
      createMenuItem_def createMenuItem_try_def
      monad_defs queries_up_def pos_stale_def pos0_def split2_def)

subsection \<open>Replace by id\<close>

lemma replace_by_id_unchanged:
  "target \<notin> key ` set xs \<Longrightarrow> map (\<lambda>x. if key x = target then y else x) xs = xs"
  by (induction xs) auto

lemma updateMenuItem_menuItems:
  "menuItems (snd (updateMenuItem env menuItemId updates s)) =
     (case reply_menuItem env (calls s) (UpdateMenuItem menuItemId updates) of
        Resolves updatedItem \<Rightarrow>
          map (\<lambda>item. if mi_id item = menuItemId then updatedItem else item) (menuItems s)
      | Rejects e \<Rightarrow> menuItems s)"
  by (simp add: updateMenuItem_def updateMenuItem_try_def monad_defs split: promise.splits)

lemma updateOrderStatus_orders:
  "orders (snd (updateOrderStatus env orderId newStatus s)) =
     (case reply_order env (calls s) (UpdateOrderStatus orderId newStatus) of
        Resolves updatedOrder \<Rightarrow>
          map (\<lambda>order. if order_id order = orderId then updatedOrder else order) (orders s)
      | Rejects e \<Rightarrow> orders s)"
  by (simp add: updateOrderStatus_def updateOrderStatus_try_def monad_defs split: promise.splits)

lemma updateStaffMember_staffMembers:
  "staffMembers (snd (updateStaffMember env userId updates s)) =
     (case reply_user env (calls s) (UpdateStaffMember userId updates) of
        Resolves updatedStaffMember \<Rightarrow>
          map (\<lambda>member. if u_id member = userId then updatedStaffMember else member)
              (staffMembers s)
      | Rejects e \<Rightarrow> staffMembers s)"
  by (simp add: updateStaffMember_def updateStaffMember_try_def monad_defs split: promise.splits)

lemma updateLocation_locations:
  "locations (snd (updateLocation env target updates s)) =
     (case reply_location env (calls s)
             (UpdateLocation target (location_update_of updates (iso_now env (ticks s)))) of
        Resolves (None, Some data) \<Rightarrow>
          map (\<lambda>location. if loc_id location = target then location_of_row data else location)
              (locations s)
      | _ \<Rightarrow> locations s)"
  by (simp add: updateLocation_def updateLocation_try_def monad_defs
      split: promise.splits option.splits)

text \<open>
  C10. \<^verbatim>\<open>updateMenuItem\<close>, \<^verbatim>\<open>updateOrderStatus\<close>, \<^verbatim>\<open>updateStaffMember\<close> and \<^verbatim>\<open>updateLocation\<close>:
  after a successful backend request the collection is the old one with every element
  whose id is the target id replaced by the returned record and every other element as
  it was; after a failed request it is the old one. So the length never changes, and
  when no element has the target id the collection is unchanged: the returned record is
  not inserted.
\<close>

theorem replace_by_id_updates:
  fixes qenv :: "'e queries_env_scheme" and cenv :: "'c client_env_scheme"
    and ps :: pos_state and ss :: staff_state and ls :: location_state
  shows
   "menuItems (snd (updateMenuItem qenv menuItemId itemUpdates ps)) =
      (case reply_menuItem qenv (calls ps) (UpdateMenuItem menuItemId itemUpdates) of
         Resolves updatedItem \<Rightarrow>
           map (\<lambda>item. if mi_id item = menuItemId then updatedItem else item) (menuItems ps)
       | Rejects e \<Rightarrow> menuItems ps)
    \<and> length (menuItems (snd (updateMenuItem qenv menuItemId itemUpdates ps))) = length (menuItems ps)
    \<and> (menuItemId \<notin> mi_id ` set (menuItems ps) \<longrightarrow>
          menuItems (snd (updateMenuItem qenv menuItemId itemUpdates ps)) = menuItems ps)
    \<and> orders (snd (updateOrderStatus qenv orderId newStatus ps)) =
      (case reply_order qenv (calls ps) (UpdateOrderStatus orderId newStatus) of
         Resolves updatedOrder \<Rightarrow>
           map (\<lambda>order. if order_id order = orderId then updatedOrder else order) (orders ps)
       | Rejects e \<Rightarrow> orders ps)
    \<and> length (orders (snd (updateOrderStatus qenv orderId newStatus ps))) = length (orders ps)
    \<and> (orderId \<notin> order_id ` set (orders ps) \<longrightarrow>
          orders (snd (updateOrderStatus qenv orderId newStatus ps)) = orders ps)
    \<and> staffMembers (snd (updateStaffMember qenv userId staffUpdates ss)) =
      (case reply_user qenv (calls ss) (UpdateStaffMember userId staffUpdates) of
         Resolves updatedStaffMember \<Rightarrow>
           map (\<lambda>member. if u_id member = userId then updatedStaffMember else member)
               (staffMembers ss)
       | Rejects e \<Rightarrow> staffMembers ss)
    \<and> length (staffMembers (snd (updateStaffMember qenv userId staffUpdates ss))) =
        length (staffMembers ss)
    \<and> (userId \<notin> u_id ` set (staffMembers ss) \<longrightarrow>
          staffMembers (snd (updateStaffMember qenv userId staffUpdates ss)) = staffMembers ss)
    \<and> locations (snd (updateLocation cenv target updates ls)) =
      (case reply_location cenv (calls ls)
              (UpdateLocation target (location_update_of updates (iso_now cenv (ticks ls)))) of
         Resolves (None, Some data) \<Rightarrow>
           map (\<lambda>location. if loc_id location = target then location_of_row data else location)
               (locations ls)
       | _ \<Rightarrow> locations ls)
    \<and> length (locations (snd (updateLocation cenv target updates ls))) = length (locations ls)
    \<and> (target \<notin> loc_id ` set (locations ls) \<longrightarrow>
          locations (snd (updateLocation cenv target updates ls)) = locations ls)"
proof -
  have m: "length (menuItems (snd (updateMenuItem qenv menuItemId itemUpdates ps))) =
             length (menuItems ps)
           \<and> (menuItemId \<notin> mi_id ` set (menuItems ps) \<longrightarrow>
                menuItems (snd (updateMenuItem qenv menuItemId itemUpdates ps)) = menuItems ps)"
    by (simp add: updateMenuItem_menuItems replace_by_id_unchanged split: promise.splits)
  have o: "length (orders (snd (updateOrderStatus qenv orderId newStatus ps))) = length (orders ps)
           \<and> (orderId \<notin> order_id ` set (orders ps) \<longrightarrow>
                orders (snd (updateOrderStatus qenv orderId newStatus ps)) = orders ps)"
    by (simp add: updateOrderStatus_orders replace_by_id_unchanged split: promise.splits)
  have u: "length (staffMembers (snd (updateStaffMember qenv userId staffUpdates ss))) =
             length (staffMembers ss)
           \<and> (userId \<notin> u_id ` set (staffMembers ss) \<longrightarrow>
                staffMembers (snd (updateStaffMember qenv userId staffUpdates ss)) = staffMembers ss)"
    by (simp add: updateStaffMember_staffMembers replace_by_id_unchanged split: promise.splits)
  have l: "length (locations (snd (updateLocation cenv target updates ls))) = length (locations ls)
           \<and> (target \<notin> loc_id ` set (locations ls) \<longrightarrow>
                locations (snd (updateLocation cenv target updates ls)) = locations ls)"
    by (simp add: updateLocation_locations replace_by_id_unchanged
        split: promise.splits option.splits prod.splits)
  from m o u l
    updateMenuItem_menuItems [of qenv menuItemId itemUpdates ps]
    updateOrderStatus_orders [of qenv orderId newStatus ps]
    updateStaffMember_staffMembers [of qenv userId staffUpdates ss]
    updateLocation_locations [of cenv target updates ls]
  show ?thesis
    by (elim conjE) (intro conjI, assumption+)
qed

theorem replace_by_id_updates_witness:
  "''m9'' \<notin> mi_id ` set (menuItems pos0)
   \<and> fst (updateMenuItem queries_up ''m9'' ''{}'' pos0) = Inr burger
   \<and> menuItems (snd (updateMenuItem queries_up ''m9'' ''{}'' pos0)) = menuItems pos0
   \<and> ''o9'' \<notin> order_id ` set (orders pos0)
   \<and> fst (updateOrderStatus queries_up ''o9'' ''ready'' pos0) = Inr order1
   \<and> orders (snd (updateOrderStatus queries_up ''o9'' ''ready'' pos0)) = orders pos0
   \<and> ''u9'' \<notin> u_id ` set (staffMembers staff0)
   \<and> staffMembers (snd (updateStaffMember queries_up ''u9'' ''{}'' staff0)) = staffMembers staff0
   \<and> ''l9'' \<notin> loc_id ` set (locations loc1)
   \<and> fst (updateLocation client_up ''l9'' no_updates loc1) = Inr (location_of_row row_downtown)
   \<and> locations (snd (updateLocation client_up ''l9'' no_updates loc1)) = locations loc1"
proof -
  have a: "''m9'' \<notin> mi_id ` set (menuItems pos0)"
    by (simp add: pos0_def burger_def)
  have b: "''o9'' \<notin> order_id ` set (orders pos0)"
    by (simp add: pos0_def order1_def)
  have c: "''u9'' \<notin> u_id ` set (staffMembers staff0)"
    by (simp add: staff0_def cashier_def)
  have d: "''l9'' \<notin> loc_id ` set (locations loc1)"
    by (simp add: loc1_def loc0_def location_of_row_def row_airport_def)
  have r1: "fst (updateMenuItem queries_up ''m9'' ''{}'' pos0) = Inr burger"
    by (simp add: updateMenuItem_def updateMenuItem_try_def monad_defs queries_up_def)
  have r2: "fst (updateOrderStatus queries_up ''o9'' ''ready'' pos0) = Inr order1"
    by (simp add: updateOrderStatus_def updateOrderStatus_try_def monad_defs queries_up_def)
  have r3: "fst (updateLocation client_up ''l9'' no_updates loc1) = Inr (location_of_row row_downtown)"
    by (simp add: updateLocation_def updateLocation_try_def monad_defs client_up_def)
  from replace_by_id_updates [where qenv = queries_up and cenv = client_up and ps = pos0
         and ss = staff0 and ls = loc1 and menuItemId = "''m9''" and itemUpdates = "''{}''"
         and orderId = "''o9''" and newStatus = "''ready''" and userId = "''u9''"
         and staffUpdates = "''{}''" and target = "''l9''" and updates = no_updates]
       a b c d
  have "menuItems (snd (updateMenuItem queries_up ''m9'' ''{}'' pos0)) = menuItems pos0
      \<and> orders (snd (updateOrderStatus queries_up ''o9'' ''ready'' pos0)) = orders pos0
      \<and> staffMembers (snd (updateStaffMember queries_up ''u9'' ''{}'' staff0)) = staffMembers staff0
      \<and> locations (snd (updateLocation client_up ''l9'' no_updates loc1)) = locations loc1"
    by (elim conjE) (intro conjI, (erule (1) mp)+)
  with a b c d r1 r2 r3 show ?thesis
    by (elim conjE) (intro conjI, assumption+)
qed

subsection \<open>Failure policy\<close>

lemmas world_defs = queries_down_def client_down_def pos0_def staff0_def loc1_def loc0_def
  auth_signed_in_def auth0_def burger_def cashier_def split2_def location_of_row_def
  row_airport_def row_bay_def row_downtown_def

lemma create_split_payments_toasts:
  "toasts (snd (create_split_payments env orderId payments w)) = toasts w"
  by (induction payments arbitrary: w)
     (auto simp: monad_defs split: promise.splits prod.splits sum.splits)

lemma store_split_payments_toasts:
  "toasts (snd (store_split_payments env orderId payments w)) = toasts w"
  by (induction payments arbitrary: w)
     (auto simp: monad_defs storeOfflinePayment_def addToQueue_def Let_def
        split: promise.splits prod.splits sum.splits option.splits)

lemma toast_text_eq:
  "toast_text fallback e =
     (case e of Error m \<Rightarrow> m | TypeError m \<Rightarrow> m | NonError v \<Rightarrow> fallback)"
  by (cases e) simp_all

lemma try_catch_caught:
  "fst (body s) = Inl e \<Longrightarrow> try_catch body handler s = handler e (snd (body s))"
  by (cases "body s") (simp add: try_catch_def)

lemma on_failure_rethrow:
  assumes "\<And>s e. fst (body s) = Inl e \<Longrightarrow> toasts (snd (body s)) = toasts s"
  shows "on_failure body (try_catch body (\<lambda>e. bnd (record_failure e) (\<lambda>_. throw e))) True (\<lambda>e. [])"
  unfolding on_failure_def
  by (intro allI impI) (simp add: try_catch_caught assms bnd_def record_failure_def set_state_def throw_def)

lemma on_failure_notify_rethrow:
  assumes "\<And>s e. fst (body s) = Inl e \<Longrightarrow> toasts (snd (body s)) = toasts s"
  shows "on_failure body
           (try_catch body (\<lambda>e. bnd (record_failure e) (\<lambda>_. bnd (show_toast t) (\<lambda>_. throw e))))
           True (\<lambda>e. [t])"
  unfolding on_failure_def
  by (intro allI impI)
     (simp add: try_catch_caught assms bnd_def record_failure_def set_state_def throw_def
        show_toast_def)

lemma on_failure_notify:
  assumes "\<And>s e. fst (body s) = Inl e \<Longrightarrow> toasts (snd (body s)) = toasts s"
  shows "on_failure body
           (try_catch body (\<lambda>e. bnd (record_failure e) (\<lambda>_. show_toast (t e))))
           False (\<lambda>e. [t e])"
  unfolding on_failure_def
  by (intro allI impI)
     (simp add: try_catch_caught assms bnd_def record_failure_def set_state_def show_toast_def)

lemma on_failure_return:
  assumes "\<And>s e. fst (body s) = Inl e \<Longrightarrow> toasts (snd (body s)) = toasts s"
  shows "on_failure body
           (try_catch body (\<lambda>e. bnd (record_failure e) (\<lambda>_. ret (r e))))
           False (\<lambda>e. [])"
  unfolding on_failure_def
  by (intro allI impI)
     (simp add: try_catch_caught assms bnd_def record_failure_def set_state_def ret_def)

lemma on_failure_swallow:
  assumes "\<And>s e. fst (body s) = Inl e \<Longrightarrow> toasts (snd (body s)) = toasts s"
  shows "on_failure body (try_catch body (\<lambda>e. record_failure e)) False (\<lambda>e. [])"
  unfolding on_failure_def
  by (intro allI impI)
     (simp add: try_catch_caught assms record_failure_def set_state_def)

lemma initialize_on_failure:
  "on_failure (initialize_try env)
     (initialize env)
     False (\<lambda>e. [])"
  unfolding initialize_def
  by (rule on_failure_swallow)
     (auto simp: initialize_try_def monad_defs checked_eq
        split: promise.splits option.splits prod.splits)

lemma createMenuItem_on_failure:
  "on_failure (createMenuItem_try env menuItem)
     (createMenuItem env menuItem)
     True (\<lambda>e. [])"
  unfolding createMenuItem_def
  by (rule on_failure_rethrow)
     (auto simp: createMenuItem_try_def monad_defs checked_eq
        split: promise.splits option.splits prod.splits)

lemma updateMenuItem_on_failure:
  "on_failure (updateMenuItem_try env menuItemId itemUpdates)
     (updateMenuItem env menuItemId itemUpdates)
     True (\<lambda>e. [])"
  unfolding updateMenuItem_def
  by (rule on_failure_rethrow)
     (auto simp: updateMenuItem_try_def monad_defs checked_eq
        split: promise.splits option.splits prod.splits)

lemma deleteMenuItem_on_failure:
  "on_failure (deleteMenuItem_try env menuItemId)
     (deleteMenuItem env menuItemId)
     True (\<lambda>e. [])"
  unfolding deleteMenuItem_def
  by (rule on_failure_rethrow)
     (auto simp: deleteMenuItem_try_def monad_defs checked_eq
        split: promise.splits option.splits prod.splits)

lemma restockMenuItem_on_failure:
  "on_failure (restockMenuItem_try env authUser menuItemId quantity memo)
     (restockMenuItem env authUser menuItemId quantity memo)
     True (\<lambda>e. [])"
  unfolding restockMenuItem_def
  by (rule on_failure_rethrow)
     (auto simp: restockMenuItem_try_def monad_defs checked_eq find_menuItem_def current_userId_def replace_menuItem_def Let_def
        split: promise.splits option.splits prod.splits)

lemma adjustMenuItemStock_on_failure:
  "on_failure (adjustMenuItemStock_try env authUser menuItemId quantity memo)
     (adjustMenuItemStock env authUser menuItemId quantity memo)
     True (\<lambda>e. [])"
  unfolding adjustMenuItemStock_def
  by (rule on_failure_rethrow)
     (auto simp: adjustMenuItemStock_try_def monad_defs checked_eq find_menuItem_def current_userId_def replace_menuItem_def Let_def
        split: promise.splits option.splits prod.splits)

lemma recordWaste_on_failure:
  "on_failure (recordWaste_try env authUser menuItemId quantity memo reason)
     (recordWaste env authUser menuItemId quantity memo reason)
     True (\<lambda>e. [])"
  unfolding recordWaste_def
  by (rule on_failure_rethrow)
     (auto simp: recordWaste_try_def monad_defs checked_eq find_menuItem_def current_userId_def replace_menuItem_def Let_def
        split: promise.splits option.splits prod.splits)

lemma syncOfflineData_on_failure:
  "on_failure (syncOfflineData_try env)
     (syncOfflineData env)
     False (\<lambda>e. [])"
  unfolding syncOfflineData_def
  by (rule on_failure_return)
     (auto simp: syncOfflineData_try_def monad_defs checked_eq
        split: promise.splits option.splits prod.splits)

lemma syncOfflinePayments_on_failure:
  "on_failure (syncOfflinePayments_try env)
     (syncOfflinePayments env)
     False (\<lambda>e. [])"
  unfolding syncOfflinePayments_def
  by (rule on_failure_return)
     (auto simp: syncOfflinePayments_try_def monad_defs checked_eq
        split: promise.splits option.splits prod.splits)

lemma addOrder_on_failure:
  "on_failure (addOrder_try env order)
     (addOrder env order)
     True (\<lambda>e. [])"
  unfolding addOrder_def
  by (rule on_failure_rethrow)
     (auto simp: addOrder_try_def monad_defs checked_eq
        split: promise.splits option.splits prod.splits)

lemma updateOrderStatus_on_failure:
  "on_failure (updateOrderStatus_try env orderId newStatus)
     (updateOrderStatus env orderId newStatus)
     True (\<lambda>e. [])"
  unfolding updateOrderStatus_def
  by (rule on_failure_rethrow)
     (auto simp: updateOrderStatus_try_def monad_defs checked_eq
        split: promise.splits option.splits prod.splits)

lemma processPayment_on_failure:
  "on_failure (processPayment_try env orderId amount paymentMethod details)
     (processPayment env orderId amount paymentMethod details)
     True (\<lambda>e. [])"
  unfolding processPayment_def
  by (rule on_failure_rethrow)
     (auto simp: processPayment_try_def monad_defs checked_eq storeOfflinePayment_def addToQueue_def Let_def
        split: promise.splits option.splits prod.splits)

lemma processSplitPayment_on_failure:
  "on_failure (processSplitPayment_try env orderId payments)
     (processSplitPayment env orderId payments)
     True (\<lambda>e. [])"
  unfolding processSplitPayment_def
proof (rule on_failure_rethrow)
  fix s :: pos_state and e
  assume "fst (processSplitPayment_try env orderId payments s) = Inl e"
  then show "toasts (snd (processSplitPayment_try env orderId payments s)) = toasts s"
    using create_split_payments_toasts [of env orderId payments "s\<lparr>isLoading := True\<rparr>"]
          store_split_payments_toasts [of env orderId payments "s\<lparr>isLoading := True\<rparr>"]
    by (auto simp: processSplitPayment_try_def monad_defs
        split: promise.splits prod.splits sum.splits if_splits)
qed

lemma fetchStaffMembers_on_failure:
  "on_failure (fetchStaffMembers_try env)
     (fetchStaffMembers env)
     False (\<lambda>e. [ToastError ''Failed to fetch staff members''])"
  unfolding fetchStaffMembers_def
  by (rule on_failure_notify)
     (auto simp: fetchStaffMembers_try_def monad_defs checked_eq
        split: promise.splits option.splits prod.splits)

lemma createStaffMember_on_failure:
  "on_failure (createStaffMember_try env email password profile)
     (createStaffMember env email password profile)
     False (\<lambda>e. [ToastError ''Failed to create staff member''])"
  unfolding createStaffMember_def
  by (rule on_failure_notify)
     (auto simp: createStaffMember_try_def monad_defs checked_eq
        split: promise.splits option.splits prod.splits)

lemma updateStaffMember_on_failure:
  "on_failure (updateStaffMember_try env userId staffUpdates)
     (updateStaffMember env userId staffUpdates)
     False (\<lambda>e. [ToastError ''Failed to update staff member''])"
  unfolding updateStaffMember_def
  by (rule on_failure_notify)
     (auto simp: updateStaffMember_try_def monad_defs checked_eq
        split: promise.splits option.splits prod.splits)

lemma deleteStaffMember_on_failure:
  "on_failure (deleteStaffMember_try env userId)
     (deleteStaffMember env userId)
     False (\<lambda>e. [ToastError ''Failed to delete staff member''])"
  unfolding deleteStaffMember_def
  by (rule on_failure_notify)
     (auto simp: deleteStaffMember_try_def monad_defs checked_eq
        split: promise.splits option.splits prod.splits)

lemma fetchLocations_on_failure:
  "on_failure (fetchLocations_try env authUser)
     (fetchLocations env authUser)
     False (\<lambda>e. [ToastError ''Failed to fetch locations''])"
  unfolding fetchLocations_def
  by (rule on_failure_notify)
     (auto simp: fetchLocations_try_def monad_defs checked_eq select_locations_def select_after_fetch_eq
        split: promise.splits option.splits prod.splits)

lemma createLocation_on_failure:
  "on_failure (createLocation_try env authUser location)
     (createLocation env authUser location)
     True (\<lambda>e. [ToastError ''Failed to create location''])"
  unfolding createLocation_def
  by (rule on_failure_notify_rethrow)
     (auto simp: createLocation_try_def monad_defs checked_eq
        split: promise.splits option.splits prod.splits)

lemma updateLocation_on_failure:
  "on_failure (updateLocation_try env target updates)
     (updateLocation env target updates)
     True (\<lambda>e. [ToastError ''Failed to update location''])"
  unfolding updateLocation_def
  by (rule on_failure_notify_rethrow)
     (auto simp: updateLocation_try_def monad_defs checked_eq
        split: promise.splits option.splits prod.splits)

lemma deleteLocation_on_failure:
  "on_failure (deleteLocation_try env target)
     (deleteLocation env target)
     True (\<lambda>e. [ToastError ''Failed to delete location''])"
  unfolding deleteLocation_def
  by (rule on_failure_notify_rethrow)
     (auto simp: deleteLocation_try_def monad_defs checked_eq Let_def
        split: promise.splits option.splits prod.splits)

lemma toggleLocationStatus_on_failure:
  "on_failure (toggleLocationStatus_try env target)
     (toggleLocationStatus env target)
     True (\<lambda>e. [ToastError ''Failed to update location status''])"
  unfolding toggleLocationStatus_def
  by (rule on_failure_notify_rethrow)
     (auto simp: toggleLocationStatus_try_def monad_defs checked_eq
        split: promise.splits option.splits prod.splits)

lemma signIn_on_failure:
  "on_failure (signIn_try env email password)
     (signIn env email password)
     False (\<lambda>e. [ToastError (case e of Error m \<Rightarrow> m | TypeError m \<Rightarrow> m | NonError v \<Rightarrow> ''auth.invalidCredentials'')])"
  unfolding on_failure_def
proof (intro allI impI)
  fix s :: auth_state and e
  assume thrown: "fst (signIn_try env email password s) = Inl e"
  then have "toasts (snd (signIn_try env email password s)) = toasts s"
    by (auto simp: signIn_try_def monad_defs checked_eq
        split: promise.splits option.splits prod.splits)
  with thrown show "error (snd (signIn env email password s)) = Some e
      \<and> \<not> isLoading (snd (signIn env email password s))
      \<and> toasts (snd (signIn env email password s)) = toasts s @ [ToastError (case e of Error m \<Rightarrow> m | TypeError m \<Rightarrow> m | NonError v \<Rightarrow> ''auth.invalidCredentials'')]
      \<and> (if False then fst (signIn env email password s) = Inl e
          else (case fst (signIn env email password s) of
                  Inl thrown \<Rightarrow> False | Inr returned \<Rightarrow> True))"
    by (simp add: signIn_caught toast_text_eq)
qed

lemma signUp_on_failure:
  "on_failure (signUp_try env email password fullName role)
     (signUp env email password fullName role)
     False (\<lambda>e. [ToastError (case e of Error m \<Rightarrow> m | TypeError m \<Rightarrow> m | NonError v \<Rightarrow> ''Failed to create account'')])"
  unfolding signUp_def toast_text_eq
  by (rule on_failure_notify)
     (auto simp: signUp_try_def monad_defs checked_eq
        split: promise.splits option.splits prod.splits)

lemma signOut_on_failure:
  "on_failure (signOut_try env)
     (signOut env)
     False (\<lambda>e. [ToastError ''common.error''])"
  unfolding signOut_def
  by (rule on_failure_notify)
     (auto simp: signOut_try_def monad_defs checked_eq
        split: promise.splits option.splits prod.splits)

lemma updateUserRole_on_failure:
  "on_failure (updateUserRole_try env userId role)
     (updateUserRole env userId role)
     False (\<lambda>e. [ToastError ''common.error''])"
  unfolding updateUserRole_def
  by (rule on_failure_notify)
     (auto simp: updateUserRole_try_def monad_defs checked_eq
        split: promise.splits option.splits prod.splits)

lemma updateUserLanguage_on_failure:
  "on_failure (updateUserLanguage_try env lang)
     (updateUserLanguage env lang)
     False (\<lambda>e. [ToastError ''common.error''])"
  unfolding updateUserLanguage_def
  by (rule on_failure_notify)
     (auto simp: updateUserLanguage_try_def monad_defs checked_eq
        split: promise.splits option.splits prod.splits)

lemma resetPasswordForEmail_on_failure:
  "on_failure (resetPasswordForEmail_try env email)
     (resetPasswordForEmail env email)
     False (\<lambda>e. [ToastError (case e of Error m \<Rightarrow> m | TypeError m \<Rightarrow> m | NonError v \<Rightarrow> ''Failed to send password reset email'')])"
  unfolding resetPasswordForEmail_def toast_text_eq
  by (rule on_failure_notify)
     (auto simp: resetPasswordForEmail_try_def monad_defs checked_eq
        split: promise.splits option.splits prod.splits)

text \<open>
  C7, as amended. For every async operation of the four stores: when its \<^verbatim>\<open>try\<close> block
  throws (a failing backend call makes it throw), the operation records the error in the
  store and clears \<^verbatim>\<open>isLoading\<close>. The rest depends on the store. The mutating operations of
  the POS store re-throw and show no notification. The mutating operations of the
  location store show one error notification and re-throw. The mutating operations of
  the staff store and the operations of the auth store show one error notification and
  do not re-throw; for \<^verbatim>\<open>signIn\<close>, \<^verbatim>\<open>signUp\<close> and \<^verbatim>\<open>resetPasswordForEmail\<close> the notification is
  the message of the error, or a fixed text when the value thrown is not an \<^verbatim>\<open>Error\<close>
  object. The read and list operations do not re-throw: \<^verbatim>\<open>fetchStaffMembers\<close> and
  \<^verbatim>\<open>fetchLocations\<close> show one error notification, \<^verbatim>\<open>initialize\<close> and the two sync operations
  show none.
\<close>

theorem failure_policy:
  fixes qenv :: "'e queries_env_scheme" and cenv :: "'c client_env_scheme"
  shows
   "on_failure (initialize_try qenv)
        (initialize qenv)
        False (\<lambda>e. [])
    \<and> on_failure (createMenuItem_try qenv menuItem)
        (createMenuItem qenv menuItem)
        True (\<lambda>e. [])
    \<and> on_failure (updateMenuItem_try qenv menuItemId itemUpdates)
        (updateMenuItem qenv menuItemId itemUpdates)
        True (\<lambda>e. [])
    \<and> on_failure (deleteMenuItem_try qenv menuItemId)
        (deleteMenuItem qenv menuItemId)
        True (\<lambda>e. [])
    \<and> on_failure (restockMenuItem_try qenv authUser menuItemId quantity memo)
        (restockMenuItem qenv authUser menuItemId quantity memo)
        True (\<lambda>e. [])
    \<and> on_failure (adjustMenuItemStock_try qenv authUser menuItemId quantity memo)
        (adjustMenuItemStock qenv authUser menuItemId quantity memo)
        True (\<lambda>e. [])
    \<and> on_failure (recordWaste_try qenv authUser menuItemId quantity memo reason)
        (recordWaste qenv authUser menuItemId quantity memo reason)
        True (\<lambda>e. [])
    \<and> on_failure (syncOfflineData_try qenv)
        (syncOfflineData qenv)
        False (\<lambda>e. [])
    \<and> on_failure (syncOfflinePayments_try qenv)
        (syncOfflinePayments qenv)
        False (\<lambda>e. [])
    \<and> on_failure (addOrder_try qenv order)
        (addOrder qenv order)
        True (\<lambda>e. [])
    \<and> on_failure (updateOrderStatus_try qenv orderId newStatus)
        (updateOrderStatus qenv orderId newStatus)
        True (\<lambda>e. [])
    \<and> on_failure (processPayment_try qenv orderId amount paymentMethod details)
        (processPayment qenv orderId amount paymentMethod details)
        True (\<lambda>e. [])
    \<and> on_failure (processSplitPayment_try qenv orderId payments)
        (processSplitPayment qenv orderId payments)
        True (\<lambda>e. [])
    \<and> on_failure (fetchStaffMembers_try qenv)
        (fetchStaffMembers qenv)
        False (\<lambda>e. [ToastError ''Failed to fetch staff members''])
    \<and> on_failure (createStaffMember_try qenv email password profile)
        (createStaffMember qenv email password profile)
        False (\<lambda>e. [ToastError ''Failed to create staff member''])
    \<and> on_failure (updateStaffMember_try qenv userId staffUpdates)
        (updateStaffMember qenv userId staffUpdates)
        False (\<lambda>e. [ToastError ''Failed to update staff member''])
    \<and> on_failure (deleteStaffMember_try qenv userId)
        (deleteStaffMember qenv userId)
        False (\<lambda>e. [ToastError ''Failed to delete staff member''])
    \<and> on_failure (fetchLocations_try cenv authUser)
        (fetchLocations cenv authUser)
        False (\<lambda>e. [ToastError ''Failed to fetch locations''])
    \<and> on_failure (createLocation_try cenv authUser location)
        (createLocation cenv authUser location)
        True (\<lambda>e. [ToastError ''Failed to create location''])
    \<and> on_failure (updateLocation_try cenv target updates)
        (updateLocation cenv target updates)
        True (\<lambda>e. [ToastError ''Failed to update location''])
    \<and> on_failure (deleteLocation_try cenv target)
        (deleteLocation cenv target)
        True (\<lambda>e. [ToastError ''Failed to delete location''])
    \<and> on_failure (toggleLocationStatus_try cenv target)
        (toggleLocationStatus cenv target)
        True (\<lambda>e. [ToastError ''Failed to update location status''])
    \<and> on_failure (signIn_try cenv email password)
        (signIn cenv email password)
        False (\<lambda>e. [ToastError (case e of Error m \<Rightarrow> m | TypeError m \<Rightarrow> m | NonError v \<Rightarrow> ''auth.invalidCredentials'')])
    \<and> on_failure (signUp_try cenv email password fullName role)
        (signUp cenv email password fullName role)
        False (\<lambda>e. [ToastError (case e of Error m \<Rightarrow> m | TypeError m \<Rightarrow> m | NonError v \<Rightarrow> ''Failed to create account'')])
    \<and> on_failure (signOut_try cenv)
        (signOut cenv)
        False (\<lambda>e. [ToastError ''common.error''])
    \<and> on_failure (updateUserRole_try cenv userId role)
        (updateUserRole cenv userId role)
        False (\<lambda>e. [ToastError ''common.error''])
    \<and> on_failure (updateUserLanguage_try cenv lang)
        (updateUserLanguage cenv lang)
        False (\<lambda>e. [ToastError ''common.error''])
    \<and> on_failure (resetPasswordForEmail_try cenv email)
        (resetPasswordForEmail cenv email)
        False (\<lambda>e. [ToastError (case e of Error m \<Rightarrow> m | TypeError m \<Rightarrow> m | NonError v \<Rightarrow> ''Failed to send password reset email'')])"
  by (intro conjI)
     (rule initialize_on_failure
        createMenuItem_on_failure
        updateMenuItem_on_failure
        deleteMenuItem_on_failure
        restockMenuItem_on_failure
        adjustMenuItemStock_on_failure
        recordWaste_on_failure
        syncOfflineData_on_failure
        syncOfflinePayments_on_failure
        addOrder_on_failure
        updateOrderStatus_on_failure
        processPayment_on_failure
        processSplitPayment_on_failure
        fetchStaffMembers_on_failure
        createStaffMember_on_failure
        updateStaffMember_on_failure
        deleteStaffMember_on_failure
        fetchLocations_on_failure
        createLocation_on_failure
        updateLocation_on_failure
        deleteLocation_on_failure
        toggleLocationStatus_on_failure
        signIn_on_failure
        signUp_on_failure
        signOut_on_failure
        updateUserRole_on_failure
        updateUserLanguage_on_failure
        resetPasswordForEmail_on_failure)+

theorem failure_policy_witness:
  "fst (initialize queries_down pos0) = Inr ()
   \<and> error (snd (initialize queries_down pos0)) = Some down
   \<and> toasts (snd (initialize queries_down pos0)) = []
   \<and> fst (createMenuItem queries_down ''{}'' pos0) = Inl down
   \<and> error (snd (createMenuItem queries_down ''{}'' pos0)) = Some down
   \<and> toasts (snd (createMenuItem queries_down ''{}'' pos0)) = []
   \<and> fst (updateMenuItem queries_down ''m1'' ''{}'' pos0) = Inl down
   \<and> error (snd (updateMenuItem queries_down ''m1'' ''{}'' pos0)) = Some down
   \<and> toasts (snd (updateMenuItem queries_down ''m1'' ''{}'' pos0)) = []
   \<and> fst (deleteMenuItem queries_down ''m1'' pos0) = Inl down
   \<and> error (snd (deleteMenuItem queries_down ''m1'' pos0)) = Some down
   \<and> toasts (snd (deleteMenuItem queries_down ''m1'' pos0)) = []
   \<and> fst (restockMenuItem queries_down (Some cashier) ''m1'' (Num 8) None pos0) = Inl down
   \<and> error (snd (restockMenuItem queries_down (Some cashier) ''m1'' (Num 8) None pos0)) = Some down
   \<and> toasts (snd (restockMenuItem queries_down (Some cashier) ''m1'' (Num 8) None pos0)) = []
   \<and> fst (adjustMenuItemStock queries_down (Some cashier) ''m1'' (Num 8) None pos0) = Inl down
   \<and> error (snd (adjustMenuItemStock queries_down (Some cashier) ''m1'' (Num 8) None pos0)) = Some down
   \<and> toasts (snd (adjustMenuItemStock queries_down (Some cashier) ''m1'' (Num 8) None pos0)) = []
   \<and> fst (recordWaste queries_down (Some cashier) ''m1'' (Num 8) None None pos0) = Inl down
   \<and> error (snd (recordWaste queries_down (Some cashier) ''m1'' (Num 8) None None pos0)) = Some down
   \<and> toasts (snd (recordWaste queries_down (Some cashier) ''m1'' (Num 8) None None pos0)) = []
   \<and> fst (syncOfflineData queries_down pos0) = Inr (SyncFailure down)
   \<and> error (snd (syncOfflineData queries_down pos0)) = Some down
   \<and> toasts (snd (syncOfflineData queries_down pos0)) = []
   \<and> fst (syncOfflinePayments queries_down pos0) = Inr (SyncFailure down)
   \<and> error (snd (syncOfflinePayments queries_down pos0)) = Some down
   \<and> toasts (snd (syncOfflinePayments queries_down pos0)) = []
   \<and> fst (addOrder queries_down ''{}'' pos0) = Inl down
   \<and> error (snd (addOrder queries_down ''{}'' pos0)) = Some down
   \<and> toasts (snd (addOrder queries_down ''{}'' pos0)) = []
   \<and> fst (updateOrderStatus queries_down ''o1'' ''ready'' pos0) = Inl down
   \<and> error (snd (updateOrderStatus queries_down ''o1'' ''ready'' pos0)) = Some down
   \<and> toasts (snd (updateOrderStatus queries_down ''o1'' ''ready'' pos0)) = []
   \<and> fst (processPayment queries_down ''o1'' (Num 20) ''cash'' None pos0) = Inl down
   \<and> error (snd (processPayment queries_down ''o1'' (Num 20) ''cash'' None pos0)) = Some down
   \<and> toasts (snd (processPayment queries_down ''o1'' (Num 20) ''cash'' None pos0)) = []
   \<and> fst (processSplitPayment queries_down ''o1'' split2 pos0) = Inl down
   \<and> error (snd (processSplitPayment queries_down ''o1'' split2 pos0)) = Some down
   \<and> toasts (snd (processSplitPayment queries_down ''o1'' split2 pos0)) = []
   \<and> fst (fetchStaffMembers queries_down staff0) = Inr ()
   \<and> error (snd (fetchStaffMembers queries_down staff0)) = Some down
   \<and> toasts (snd (fetchStaffMembers queries_down staff0)) = [ToastError ''Failed to fetch staff members'']
   \<and> fst (createStaffMember queries_down ''ann@example.com'' ''secret'' ''{}'' staff0) = Inr ()
   \<and> error (snd (createStaffMember queries_down ''ann@example.com'' ''secret'' ''{}'' staff0)) = Some down
   \<and> toasts (snd (createStaffMember queries_down ''ann@example.com'' ''secret'' ''{}'' staff0)) = [ToastError ''Failed to create staff member'']
   \<and> fst (updateStaffMember queries_down ''u1'' ''{}'' staff0) = Inr ()
   \<and> error (snd (updateStaffMember queries_down ''u1'' ''{}'' staff0)) = Some down
   \<and> toasts (snd (updateStaffMember queries_down ''u1'' ''{}'' staff0)) = [ToastError ''Failed to update staff member'']
   \<and> fst (deleteStaffMember queries_down ''u1'' staff0) = Inr ()
   \<and> error (snd (deleteStaffMember queries_down ''u1'' staff0)) = Some down
   \<and> toasts (snd (deleteStaffMember queries_down ''u1'' staff0)) = [ToastError ''Failed to delete staff member'']
   \<and> fst (fetchLocations client_down (Some cashier) loc1) = Inr ()
   \<and> error (snd (fetchLocations client_down (Some cashier) loc1)) = Some down
   \<and> toasts (snd (fetchLocations client_down (Some cashier) loc1)) = [ToastError ''Failed to fetch locations'']
   \<and> fst (createLocation client_down (Some cashier) (location_of_row row_bay) loc1) = Inl down
   \<and> error (snd (createLocation client_down (Some cashier) (location_of_row row_bay) loc1)) = Some down
   \<and> toasts (snd (createLocation client_down (Some cashier) (location_of_row row_bay) loc1)) = [ToastError ''Failed to create location'']
   \<and> fst (updateLocation client_down ''l1'' no_updates loc1) = Inl down
   \<and> error (snd (updateLocation client_down ''l1'' no_updates loc1)) = Some down
   \<and> toasts (snd (updateLocation client_down ''l1'' no_updates loc1)) = [ToastError ''Failed to update location'']
   \<and> fst (deleteLocation client_down ''l1'' loc1) = Inl down
   \<and> error (snd (deleteLocation client_down ''l1'' loc1)) = Some down
   \<and> toasts (snd (deleteLocation client_down ''l1'' loc1)) = [ToastError ''Failed to delete location'']
   \<and> fst (toggleLocationStatus client_down ''l1'' loc1) = Inl down
   \<and> error (snd (toggleLocationStatus client_down ''l1'' loc1)) = Some down
   \<and> toasts (snd (toggleLocationStatus client_down ''l1'' loc1)) = [ToastError ''Failed to update location status'']
   \<and> fst (signIn client_down ''ann@example.com'' ''secret'' auth_signed_in) = Inr ()
   \<and> error (snd (signIn client_down ''ann@example.com'' ''secret'' auth_signed_in)) = Some down
   \<and> toasts (snd (signIn client_down ''ann@example.com'' ''secret'' auth_signed_in)) = [ToastError ''offline'']
   \<and> fst (signUp client_down ''ann@example.com'' ''secret'' ''Bob'' ''waiter'' auth_signed_in) = Inr ()
   \<and> error (snd (signUp client_down ''ann@example.com'' ''secret'' ''Bob'' ''waiter'' auth_signed_in)) = Some down
   \<and> toasts (snd (signUp client_down ''ann@example.com'' ''secret'' ''Bob'' ''waiter'' auth_signed_in)) = [ToastError ''offline'']
   \<and> fst (signOut client_down auth_signed_in) = Inr ()
   \<and> error (snd (signOut client_down auth_signed_in)) = Some down
   \<and> toasts (snd (signOut client_down auth_signed_in)) = [ToastError ''common.error'']
   \<and> fst (updateUserRole client_down ''u1'' ''waiter'' auth_signed_in) = Inr ()
   \<and> error (snd (updateUserRole client_down ''u1'' ''waiter'' auth_signed_in)) = Some down
   \<and> toasts (snd (updateUserRole client_down ''u1'' ''waiter'' auth_signed_in)) = [ToastError ''common.error'']
   \<and> fst (updateUserLanguage client_down ''fr'' auth_signed_in) = Inr ()
   \<and> error (snd (updateUserLanguage client_down ''fr'' auth_signed_in)) = Some down
   \<and> toasts (snd (updateUserLanguage client_down ''fr'' auth_signed_in)) = [ToastError ''common.error'']
   \<and> fst (resetPasswordForEmail client_down ''ann@example.com'' auth_signed_in) = Inr ()
   \<and> error (snd (resetPasswordForEmail client_down ''ann@example.com'' auth_signed_in)) = Some down
   \<and> toasts (snd (resetPasswordForEmail client_down ''ann@example.com'' auth_signed_in)) = [ToastError ''offline'']
   \<and> fst (signIn client_refused ''ann@example.com'' ''secret'' auth_signed_in) = Inr ()
   \<and> error (snd (signIn client_refused ''ann@example.com'' ''secret'' auth_signed_in)) = Some (NonError ''invalid_grant'')
   \<and> toasts (snd (signIn client_refused ''ann@example.com'' ''secret'' auth_signed_in)) = [ToastError ''auth.invalidCredentials'']
   \<and> fst (signUp client_refused ''ann@example.com'' ''secret'' ''Bob'' ''waiter'' auth_signed_in) = Inr ()
   \<and> error (snd (signUp client_refused ''ann@example.com'' ''secret'' ''Bob'' ''waiter'' auth_signed_in)) = Some (NonError ''invalid_grant'')
   \<and> toasts (snd (signUp client_refused ''ann@example.com'' ''secret'' ''Bob'' ''waiter'' auth_signed_in)) = [ToastError ''Failed to create account'']"
proof -
  note T = failure_policy [where qenv = queries_down
      and cenv = client_down
      and menuItem = "''{}''"
      and menuItemId = "''m1''"
      and itemUpdates = "''{}''"
      and authUser = "(Some cashier)"
      and quantity = "Num 8"
      and memo = "None"
      and reason = "None"
      and order = "''{}''"
      and orderId = "''o1''"
      and newStatus = "''ready''"
      and amount = "Num 20"
      and paymentMethod = "''cash''"
      and details = "None"
      and payments = "split2"
      and email = "''ann@example.com''"
      and password = "''secret''"
      and profile = "''{}''"
      and userId = "''u1''"
      and staffUpdates = "''{}''"
      and location = "(location_of_row row_bay)"
      and target = "''l1''"
      and updates = "no_updates"
      and fullName = "''Bob''"
      and role = "''waiter''"
      and lang = "''fr''"]
  note T' = failure_policy [where qenv = queries_down
      and cenv = client_refused
      and menuItem = "''{}''"
      and menuItemId = "''m1''"
      and itemUpdates = "''{}''"
      and authUser = "(Some cashier)"
      and quantity = "Num 8"
      and memo = "None"
      and reason = "None"
      and order = "''{}''"
      and orderId = "''o1''"
      and newStatus = "''ready''"
      and amount = "Num 20"
      and paymentMethod = "''cash''"
      and details = "None"
      and payments = "split2"
      and email = "''ann@example.com''"
      and password = "''secret''"
      and profile = "''{}''"
      and userId = "''u1''"
      and staffUpdates = "''{}''"
      and location = "(location_of_row row_bay)"
      and target = "''l1''"
      and updates = "no_updates"
      and fullName = "''Bob''"
      and role = "''waiter''"
      and lang = "''fr''"]
  have quiet: "toasts pos0 = [] \<and> toasts staff0 = [] \<and> toasts loc1 = []
      \<and> toasts auth_signed_in = []
      \<and> (\<forall>fallback. (case down of Error m \<Rightarrow> m | TypeError m \<Rightarrow> m
             | NonError v \<Rightarrow> fallback) = ''offline'')"
    by (simp add: world_defs down_def)
  have h0: "fst (initialize_try queries_down pos0) = Inl down"
    by (simp add: initialize_try_def monad_defs checked_eq world_defs )
  from T have "on_failure (initialize_try queries_down)
      (initialize queries_down)
      False (\<lambda>e. [])"
    by (elim conjE)
  from this [unfolded on_failure_def, rule_format, OF h0]
  have c0: "fst (initialize queries_down pos0) = Inr ()
      \<and> error (snd (initialize queries_down pos0)) = Some down
      \<and> toasts (snd (initialize queries_down pos0)) = []"
    by (auto simp: quiet split: sum.splits)
  have h1: "fst (createMenuItem_try queries_down ''{}'' pos0) = Inl down"
    by (simp add: createMenuItem_try_def monad_defs checked_eq world_defs )
  from T have "on_failure (createMenuItem_try queries_down ''{}'')
      (createMenuItem queries_down ''{}'')
      True (\<lambda>e. [])"
    by (elim conjE)
  from this [unfolded on_failure_def, rule_format, OF h1]
  have c1: "fst (createMenuItem queries_down ''{}'' pos0) = Inl down
      \<and> error (snd (createMenuItem queries_down ''{}'' pos0)) = Some down
      \<and> toasts (snd (createMenuItem queries_down ''{}'' pos0)) = []"
    by (auto simp: quiet split: sum.splits)
  have h2: "fst (updateMenuItem_try queries_down ''m1'' ''{}'' pos0) = Inl down"
    by (simp add: updateMenuItem_try_def monad_defs checked_eq world_defs )
  from T have "on_failure (updateMenuItem_try queries_down ''m1'' ''{}'')
      (updateMenuItem queries_down ''m1'' ''{}'')
      True (\<lambda>e. [])"
    by (elim conjE)
  from this [unfolded on_failure_def, rule_format, OF h2]
  have c2: "fst (updateMenuItem queries_down ''m1'' ''{}'' pos0) = Inl down
      \<and> error (snd (updateMenuItem queries_down ''m1'' ''{}'' pos0)) = Some down
      \<and> toasts (snd (updateMenuItem queries_down ''m1'' ''{}'' pos0)) = []"
    by (auto simp: quiet split: sum.splits)
  have h3: "fst (deleteMenuItem_try queries_down ''m1'' pos0) = Inl down"
    by (simp add: deleteMenuItem_try_def monad_defs checked_eq world_defs )
  from T have "on_failure (deleteMenuItem_try queries_down ''m1'')
      (deleteMenuItem queries_down ''m1'')
      True (\<lambda>e. [])"
    by (elim conjE)
  from this [unfolded on_failure_def, rule_format, OF h3]
  have c3: "fst (deleteMenuItem queries_down ''m1'' pos0) = Inl down
      \<and> error (snd (deleteMenuItem queries_down ''m1'' pos0)) = Some down
      \<and> toasts (snd (deleteMenuItem queries_down ''m1'' pos0)) = []"
    by (auto simp: quiet split: sum.splits)
  have h4: "fst (restockMenuItem_try queries_down (Some cashier) ''m1'' (Num 8) None pos0) = Inl down"
    by (simp add: restockMenuItem_try_def monad_defs checked_eq world_defs find_menuItem_def current_userId_def replace_menuItem_def Let_def)
  from T have "on_failure (restockMenuItem_try queries_down (Some cashier) ''m1'' (Num 8) None)
      (restockMenuItem queries_down (Some cashier) ''m1'' (Num 8) None)
      True (\<lambda>e. [])"
    by (elim conjE)
  from this [unfolded on_failure_def, rule_format, OF h4]
  have c4: "fst (restockMenuItem queries_down (Some cashier) ''m1'' (Num 8) None pos0) = Inl down
      \<and> error (snd (restockMenuItem queries_down (Some cashier) ''m1'' (Num 8) None pos0)) = Some down
      \<and> toasts (snd (restockMenuItem queries_down (Some cashier) ''m1'' (Num 8) None pos0)) = []"
    by (auto simp: quiet split: sum.splits)
  have h5: "fst (adjustMenuItemStock_try queries_down (Some cashier) ''m1'' (Num 8) None pos0) = Inl down"
    by (simp add: adjustMenuItemStock_try_def monad_defs checked_eq world_defs find_menuItem_def current_userId_def replace_menuItem_def Let_def)
  from T have "on_failure (adjustMenuItemStock_try queries_down (Some cashier) ''m1'' (Num 8) None)
      (adjustMenuItemStock queries_down (Some cashier) ''m1'' (Num 8) None)
      True (\<lambda>e. [])"
    by (elim conjE)
  from this [unfolded on_failure_def, rule_format, OF h5]
  have c5: "fst (adjustMenuItemStock queries_down (Some cashier) ''m1'' (Num 8) None pos0) = Inl down
      \<and> error (snd (adjustMenuItemStock queries_down (Some cashier) ''m1'' (Num 8) None pos0)) = Some down
      \<and> toasts (snd (adjustMenuItemStock queries_down (Some cashier) ''m1'' (Num 8) None pos0)) = []"
    by (auto simp: quiet split: sum.splits)
  have h6: "fst (recordWaste_try queries_down (Some cashier) ''m1'' (Num 8) None None pos0) = Inl down"
    by (simp add: recordWaste_try_def monad_defs checked_eq world_defs find_menuItem_def current_userId_def replace_menuItem_def Let_def)
  from T have "on_failure (recordWaste_try queries_down (Some cashier) ''m1'' (Num 8) None None)
      (recordWaste queries_down (Some cashier) ''m1'' (Num 8) None None)
      True (\<lambda>e. [])"
    by (elim conjE)
  from this [unfolded on_failure_def, rule_format, OF h6]
  have c6: "fst (recordWaste queries_down (Some cashier) ''m1'' (Num 8) None None pos0) = Inl down
      \<and> error (snd (recordWaste queries_down (Some cashier) ''m1'' (Num 8) None None pos0)) = Some down
      \<and> toasts (snd (recordWaste queries_down (Some cashier) ''m1'' (Num 8) None None pos0)) = []"
    by (auto simp: quiet split: sum.splits)
  have h7: "fst (syncOfflineData_try queries_down pos0) = Inl down"
    by (simp add: syncOfflineData_try_def monad_defs checked_eq world_defs )
  have r7: "fst (syncOfflineData queries_down pos0) = Inr (SyncFailure down)"
    by (simp add: syncOfflineData_def syncOfflineData_try_def monad_defs world_defs)
  from T have "on_failure (syncOfflineData_try queries_down)
      (syncOfflineData queries_down)
      False (\<lambda>e. [])"
    by (elim conjE)
  from r7 this [unfolded on_failure_def, rule_format, OF h7]
  have c7: "fst (syncOfflineData queries_down pos0) = Inr (SyncFailure down)
      \<and> error (snd (syncOfflineData queries_down pos0)) = Some down
      \<and> toasts (snd (syncOfflineData queries_down pos0)) = []"
    by (auto simp: quiet split: sum.splits)
  have h8: "fst (syncOfflinePayments_try queries_down pos0) = Inl down"
    by (simp add: syncOfflinePayments_try_def monad_defs checked_eq world_defs )
  have r8: "fst (syncOfflinePayments queries_down pos0) = Inr (SyncFailure down)"
    by (simp add: syncOfflinePayments_def syncOfflinePayments_try_def monad_defs world_defs)
  from T have "on_failure (syncOfflinePayments_try queries_down)
      (syncOfflinePayments queries_down)
      False (\<lambda>e. [])"
    by (elim conjE)
  from r8 this [unfolded on_failure_def, rule_format, OF h8]
  have c8: "fst (syncOfflinePayments queries_down pos0) = Inr (SyncFailure down)
      \<and> error (snd (syncOfflinePayments queries_down pos0)) = Some down
      \<and> toasts (snd (syncOfflinePayments queries_down pos0)) = []"
    by (auto simp: quiet split: sum.splits)
  have h9: "fst (addOrder_try queries_down ''{}'' pos0) = Inl down"
    by (simp add: addOrder_try_def monad_defs checked_eq world_defs )
  from T have "on_failure (addOrder_try queries_down ''{}'')
      (addOrder queries_down ''{}'')
      True (\<lambda>e. [])"
    by (elim conjE)
  from this [unfolded on_failure_def, rule_format, OF h9]
  have c9: "fst (addOrder queries_down ''{}'' pos0) = Inl down
      \<and> error (snd (addOrder queries_down ''{}'' pos0)) = Some down
      \<and> toasts (snd (addOrder queries_down ''{}'' pos0)) = []"
    by (auto simp: quiet split: sum.splits)
  have h10: "fst (updateOrderStatus_try queries_down ''o1'' ''ready'' pos0) = Inl down"
    by (simp add: updateOrderStatus_try_def monad_defs checked_eq world_defs )
  from T have "on_failure (updateOrderStatus_try queries_down ''o1'' ''ready'')
      (updateOrderStatus queries_down ''o1'' ''ready'')
      True (\<lambda>e. [])"
    by (elim conjE)
  from this [unfolded on_failure_def, rule_format, OF h10]
  have c10: "fst (updateOrderStatus queries_down ''o1'' ''ready'' pos0) = Inl down
      \<and> error (snd (updateOrderStatus queries_down ''o1'' ''ready'' pos0)) = Some down
      \<and> toasts (snd (updateOrderStatus queries_down ''o1'' ''ready'' pos0)) = []"
    by (auto simp: quiet split: sum.splits)
  have h11: "fst (processPayment_try queries_down ''o1'' (Num 20) ''cash'' None pos0) = Inl down"
    by (simp add: processPayment_try_def monad_defs checked_eq world_defs storeOfflinePayment_def addToQueue_def Let_def)
  from T have "on_failure (processPayment_try queries_down ''o1'' (Num 20) ''cash'' None)
      (processPayment queries_down ''o1'' (Num 20) ''cash'' None)
      True (\<lambda>e. [])"
    by (elim conjE)
  from this [unfolded on_failure_def, rule_format, OF h11]
  have c11: "fst (processPayment queries_down ''o1'' (Num 20) ''cash'' None pos0) = Inl down
      \<and> error (snd (processPayment queries_down ''o1'' (Num 20) ''cash'' None pos0)) = Some down
      \<and> toasts (snd (processPayment queries_down ''o1'' (Num 20) ''cash'' None pos0)) = []"
    by (auto simp: quiet split: sum.splits)
  have h12: "fst (processSplitPayment_try queries_down ''o1'' split2 pos0) = Inl down"
    by (simp add: processSplitPayment_try_def monad_defs checked_eq world_defs )
  from T have "on_failure (processSplitPayment_try queries_down ''o1'' split2)
      (processSplitPayment queries_down ''o1'' split2)
      True (\<lambda>e. [])"
    by (elim conjE)
  from this [unfolded on_failure_def, rule_format, OF h12]
  have c12: "fst (processSplitPayment queries_down ''o1'' split2 pos0) = Inl down
      \<and> error (snd (processSplitPayment queries_down ''o1'' split2 pos0)) = Some down
      \<and> toasts (snd (processSplitPayment queries_down ''o1'' split2 pos0)) = []"
    by (auto simp: quiet split: sum.splits)
  have h13: "fst (fetchStaffMembers_try queries_down staff0) = Inl down"
    by (simp add: fetchStaffMembers_try_def monad_defs checked_eq world_defs )
  from T have "on_failure (fetchStaffMembers_try queries_down)
      (fetchStaffMembers queries_down)
      False (\<lambda>e. [ToastError ''Failed to fetch staff members''])"
    by (elim conjE)
  from this [unfolded on_failure_def, rule_format, OF h13]
  have c13: "fst (fetchStaffMembers queries_down staff0) = Inr ()
      \<and> error (snd (fetchStaffMembers queries_down staff0)) = Some down
      \<and> toasts (snd (fetchStaffMembers queries_down staff0)) = [ToastError ''Failed to fetch staff members'']"
    by (auto simp: quiet split: sum.splits)
  have h14: "fst (createStaffMember_try queries_down ''ann@example.com'' ''secret'' ''{}'' staff0) = Inl down"
    by (simp add: createStaffMember_try_def monad_defs checked_eq world_defs )
  from T have "on_failure (createStaffMember_try queries_down ''ann@example.com'' ''secret'' ''{}'')
      (createStaffMember queries_down ''ann@example.com'' ''secret'' ''{}'')
      False (\<lambda>e. [ToastError ''Failed to create staff member''])"
    by (elim conjE)
  from this [unfolded on_failure_def, rule_format, OF h14]
  have c14: "fst (createStaffMember queries_down ''ann@example.com'' ''secret'' ''{}'' staff0) = Inr ()
      \<and> error (snd (createStaffMember queries_down ''ann@example.com'' ''secret'' ''{}'' staff0)) = Some down
      \<and> toasts (snd (createStaffMember queries_down ''ann@example.com'' ''secret'' ''{}'' staff0)) = [ToastError ''Failed to create staff member'']"
    by (auto simp: quiet split: sum.splits)
  have h15: "fst (updateStaffMember_try queries_down ''u1'' ''{}'' staff0) = Inl down"
    by (simp add: updateStaffMember_try_def monad_defs checked_eq world_defs )
  from T have "on_failure (updateStaffMember_try queries_down ''u1'' ''{}'')
      (updateStaffMember queries_down ''u1'' ''{}'')
      False (\<lambda>e. [ToastError ''Failed to update staff member''])"
    by (elim conjE)
  from this [unfolded on_failure_def, rule_format, OF h15]
  have c15: "fst (updateStaffMember queries_down ''u1'' ''{}'' staff0) = Inr ()
      \<and> error (snd (updateStaffMember queries_down ''u1'' ''{}'' staff0)) = Some down
      \<and> toasts (snd (updateStaffMember queries_down ''u1'' ''{}'' staff0)) = [ToastError ''Failed to update staff member'']"
    by (auto simp: quiet split: sum.splits)
  have h16: "fst (deleteStaffMember_try queries_down ''u1'' staff0) = Inl down"
    by (simp add: deleteStaffMember_try_def monad_defs checked_eq world_defs )
  from T have "on_failure (deleteStaffMember_try queries_down ''u1'')
      (deleteStaffMember queries_down ''u1'')
      False (\<lambda>e. [ToastError ''Failed to delete staff member''])"
    by (elim conjE)
  from this [unfolded on_failure_def, rule_format, OF h16]
  have c16: "fst (deleteStaffMember queries_down ''u1'' staff0) = Inr ()
      \<and> error (snd (deleteStaffMember queries_down ''u1'' staff0)) = Some down
      \<and> toasts (snd (deleteStaffMember queries_down ''u1'' staff0)) = [ToastError ''Failed to delete staff member'']"
    by (auto simp: quiet split: sum.splits)
  have h17: "fst (fetchLocations_try client_down (Some cashier) loc1) = Inl down"
    by (simp add: fetchLocations_try_def monad_defs checked_eq world_defs select_locations_def)
  from T have "on_failure (fetchLocations_try client_down (Some cashier))
      (fetchLocations client_down (Some cashier))
      False (\<lambda>e. [ToastError ''Failed to fetch locations''])"
    by (elim conjE)
  from this [unfolded on_failure_def, rule_format, OF h17]
  have c17: "fst (fetchLocations client_down (Some cashier) loc1) = Inr ()
      \<and> error (snd (fetchLocations client_down (Some cashier) loc1)) = Some down
      \<and> toasts (snd (fetchLocations client_down (Some cashier) loc1)) = [ToastError ''Failed to fetch locations'']"
    by (auto simp: quiet split: sum.splits)
  have h18: "fst (createLocation_try client_down (Some cashier) (location_of_row row_bay) loc1) = Inl down"
    by (simp add: createLocation_try_def monad_defs checked_eq world_defs )
  from T have "on_failure (createLocation_try client_down (Some cashier) (location_of_row row_bay))
      (createLocation client_down (Some cashier) (location_of_row row_bay))
      True (\<lambda>e. [ToastError ''Failed to create location''])"
    by (elim conjE)
  from this [unfolded on_failure_def, rule_format, OF h18]
  have c18: "fst (createLocation client_down (Some cashier) (location_of_row row_bay) loc1) = Inl down
      \<and> error (snd (createLocation client_down (Some cashier) (location_of_row row_bay) loc1)) = Some down
      \<and> toasts (snd (createLocation client_down (Some cashier) (location_of_row row_bay) loc1)) = [ToastError ''Failed to create location'']"
    by (auto simp: quiet split: sum.splits)
  have h19: "fst (updateLocation_try client_down ''l1'' no_updates loc1) = Inl down"
    by (simp add: updateLocation_try_def monad_defs checked_eq world_defs )
  from T have "on_failure (updateLocation_try client_down ''l1'' no_updates)
      (updateLocation client_down ''l1'' no_updates)
      True (\<lambda>e. [ToastError ''Failed to update location''])"
    by (elim conjE)
  from this [unfolded on_failure_def, rule_format, OF h19]
  have c19: "fst (updateLocation client_down ''l1'' no_updates loc1) = Inl down
      \<and> error (snd (updateLocation client_down ''l1'' no_updates loc1)) = Some down
      \<and> toasts (snd (updateLocation client_down ''l1'' no_updates loc1)) = [ToastError ''Failed to update location'']"
    by (auto simp: quiet split: sum.splits)
  have h20: "fst (deleteLocation_try client_down ''l1'' loc1) = Inl down"
    by (simp add: deleteLocation_try_def monad_defs checked_eq world_defs Let_def)
  from T have "on_failure (deleteLocation_try client_down ''l1'')
      (deleteLocation client_down ''l1'')
      True (\<lambda>e. [ToastError ''Failed to delete location''])"
    by (elim conjE)
  from this [unfolded on_failure_def, rule_format, OF h20]
  have c20: "fst (deleteLocation client_down ''l1'' loc1) = Inl down
      \<and> error (snd (deleteLocation client_down ''l1'' loc1)) = Some down
      \<and> toasts (snd (deleteLocation client_down ''l1'' loc1)) = [ToastError ''Failed to delete location'']"
    by (auto simp: quiet split: sum.splits)
  have h21: "fst (toggleLocationStatus_try client_down ''l1'' loc1) = Inl down"
    by (simp add: toggleLocationStatus_try_def monad_defs checked_eq world_defs )
  from T have "on_failure (toggleLocationStatus_try client_down ''l1'')
      (toggleLocationStatus client_down ''l1'')
      True (\<lambda>e. [ToastError ''Failed to update location status''])"
    by (elim conjE)
  from this [unfolded on_failure_def, rule_format, OF h21]
  have c21: "fst (toggleLocationStatus client_down ''l1'' loc1) = Inl down
      \<and> error (snd (toggleLocationStatus client_down ''l1'' loc1)) = Some down
      \<and> toasts (snd (toggleLocationStatus client_down ''l1'' loc1)) = [ToastError ''Failed to update location status'']"
    by (auto simp: quiet split: sum.splits)
  have h22: "fst (signIn_try client_down ''ann@example.com'' ''secret'' auth_signed_in) = Inl down"
    by (simp add: signIn_try_def monad_defs checked_eq world_defs )
  from T have "on_failure (signIn_try client_down ''ann@example.com'' ''secret'')
      (signIn client_down ''ann@example.com'' ''secret'')
      False (\<lambda>e. [ToastError (case e of Error m \<Rightarrow> m | TypeError m \<Rightarrow> m | NonError v \<Rightarrow> ''auth.invalidCredentials'')])"
    by (elim conjE)
  from this [unfolded on_failure_def, rule_format, OF h22]
  have c22: "fst (signIn client_down ''ann@example.com'' ''secret'' auth_signed_in) = Inr ()
      \<and> error (snd (signIn client_down ''ann@example.com'' ''secret'' auth_signed_in)) = Some down
      \<and> toasts (snd (signIn client_down ''ann@example.com'' ''secret'' auth_signed_in)) = [ToastError ''offline'']"
    by (auto simp: quiet split: sum.splits)
  have h23: "fst (signUp_try client_down ''ann@example.com'' ''secret'' ''Bob'' ''waiter'' auth_signed_in) = Inl down"
    by (simp add: signUp_try_def monad_defs checked_eq world_defs )
  from T have "on_failure (signUp_try client_down ''ann@example.com'' ''secret'' ''Bob'' ''waiter'')
      (signUp client_down ''ann@example.com'' ''secret'' ''Bob'' ''waiter'')
      False (\<lambda>e. [ToastError (case e of Error m \<Rightarrow> m | TypeError m \<Rightarrow> m | NonError v \<Rightarrow> ''Failed to create account'')])"
    by (elim conjE)
  from this [unfolded on_failure_def, rule_format, OF h23]
  have c23: "fst (signUp client_down ''ann@example.com'' ''secret'' ''Bob'' ''waiter'' auth_signed_in) = Inr ()
      \<and> error (snd (signUp client_down ''ann@example.com'' ''secret'' ''Bob'' ''waiter'' auth_signed_in)) = Some down
      \<and> toasts (snd (signUp client_down ''ann@example.com'' ''secret'' ''Bob'' ''waiter'' auth_signed_in)) = [ToastError ''offline'']"
    by (auto simp: quiet split: sum.splits)
  have h24: "fst (signOut_try client_down auth_signed_in) = Inl down"
    by (simp add: signOut_try_def monad_defs checked_eq world_defs )
  from T have "on_failure (signOut_try client_down)
      (signOut client_down)
      False (\<lambda>e. [ToastError ''common.error''])"
    by (elim conjE)
  from this [unfolded on_failure_def, rule_format, OF h24]
  have c24: "fst (signOut client_down auth_signed_in) = Inr ()
      \<and> error (snd (signOut client_down auth_signed_in)) = Some down
      \<and> toasts (snd (signOut client_down auth_signed_in)) = [ToastError ''common.error'']"
    by (auto simp: quiet split: sum.splits)
  have h25: "fst (updateUserRole_try client_down ''u1'' ''waiter'' auth_signed_in) = Inl down"
    by (simp add: updateUserRole_try_def monad_defs checked_eq world_defs )
  from T have "on_failure (updateUserRole_try client_down ''u1'' ''waiter'')
      (updateUserRole client_down ''u1'' ''waiter'')
      False (\<lambda>e. [ToastError ''common.error''])"
    by (elim conjE)
  from this [unfolded on_failure_def, rule_format, OF h25]
  have c25: "fst (updateUserRole client_down ''u1'' ''waiter'' auth_signed_in) = Inr ()
      \<and> error (snd (updateUserRole client_down ''u1'' ''waiter'' auth_signed_in)) = Some down
      \<and> toasts (snd (updateUserRole client_down ''u1'' ''waiter'' auth_signed_in)) = [ToastError ''common.error'']"
    by (auto simp: quiet split: sum.splits)
  have h26: "fst (updateUserLanguage_try client_down ''fr'' auth_signed_in) = Inl down"
    by (simp add: updateUserLanguage_try_def monad_defs checked_eq world_defs )
  from T have "on_failure (updateUserLanguage_try client_down ''fr'')
      (updateUserLanguage client_down ''fr'')
      False (\<lambda>e. [ToastError ''common.error''])"
    by (elim conjE)
  from this [unfolded on_failure_def, rule_format, OF h26]
  have c26: "fst (updateUserLanguage client_down ''fr'' auth_signed_in) = Inr ()
      \<and> error (snd (updateUserLanguage client_down ''fr'' auth_signed_in)) = Some down
      \<and> toasts (snd (updateUserLanguage client_down ''fr'' auth_signed_in)) = [ToastError ''common.error'']"
    by (auto simp: quiet split: sum.splits)
  have h27: "fst (resetPasswordForEmail_try client_down ''ann@example.com'' auth_signed_in) = Inl down"
    by (simp add: resetPasswordForEmail_try_def monad_defs checked_eq world_defs )
  from T have "on_failure (resetPasswordForEmail_try client_down ''ann@example.com'')
      (resetPasswordForEmail client_down ''ann@example.com'')
      False (\<lambda>e. [ToastError (case e of Error m \<Rightarrow> m | TypeError m \<Rightarrow> m | NonError v \<Rightarrow> ''Failed to send password reset email'')])"
    by (elim conjE)
  from this [unfolded on_failure_def, rule_format, OF h27]
  have c27: "fst (resetPasswordForEmail client_down ''ann@example.com'' auth_signed_in) = Inr ()
      \<and> error (snd (resetPasswordForEmail client_down ''ann@example.com'' auth_signed_in)) = Some down
      \<and> toasts (snd (resetPasswordForEmail client_down ''ann@example.com'' auth_signed_in)) = [ToastError ''offline'']"
    by (auto simp: quiet split: sum.splits)
  have h28: "fst (signIn_try client_refused ''ann@example.com'' ''secret'' auth_signed_in) =
      Inl (NonError ''invalid_grant'')"
    by (simp add: signIn_try_def monad_defs checked_eq client_refused_def client_up_def world_defs)
  from T' have "on_failure (signIn_try client_refused ''ann@example.com'' ''secret'')
      (signIn client_refused ''ann@example.com'' ''secret'')
      False (\<lambda>e. [ToastError (case e of Error m \<Rightarrow> m | TypeError m \<Rightarrow> m | NonError v \<Rightarrow> ''auth.invalidCredentials'')])"
    by (elim conjE)
  from this [unfolded on_failure_def, rule_format, OF h28]
  have c28: "fst (signIn client_refused ''ann@example.com'' ''secret'' auth_signed_in) = Inr ()
      \<and> error (snd (signIn client_refused ''ann@example.com'' ''secret'' auth_signed_in)) = Some (NonError ''invalid_grant'')
      \<and> toasts (snd (signIn client_refused ''ann@example.com'' ''secret'' auth_signed_in)) = [ToastError ''auth.invalidCredentials'']"
    by (auto simp: quiet split: sum.splits)
  have h29: "fst (signUp_try client_refused ''ann@example.com'' ''secret'' ''Bob'' ''waiter'' auth_signed_in) =
      Inl (NonError ''invalid_grant'')"
    by (simp add: signUp_try_def monad_defs checked_eq client_refused_def client_up_def world_defs)
  from T' have "on_failure (signUp_try client_refused ''ann@example.com'' ''secret'' ''Bob'' ''waiter'')
      (signUp client_refused ''ann@example.com'' ''secret'' ''Bob'' ''waiter'')
      False (\<lambda>e. [ToastError (case e of Error m \<Rightarrow> m | TypeError m \<Rightarrow> m | NonError v \<Rightarrow> ''Failed to create account'')])"
    by (elim conjE)
  from this [unfolded on_failure_def, rule_format, OF h29]
  have c29: "fst (signUp client_refused ''ann@example.com'' ''secret'' ''Bob'' ''waiter'' auth_signed_in) = Inr ()
      \<and> error (snd (signUp client_refused ''ann@example.com'' ''secret'' ''Bob'' ''waiter'' auth_signed_in)) = Some (NonError ''invalid_grant'')
      \<and> toasts (snd (signUp client_refused ''ann@example.com'' ''secret'' ''Bob'' ''waiter'' auth_signed_in)) = [ToastError ''Failed to create account'']"
    by (auto simp: quiet split: sum.splits)
  from c0 c1 c2 c3 c4 c5 c6 c7 c8 c9 c10 c11 c12 c13 c14 c15 c16 c17 c18 c19 c20 c21 c22 c23 c24 c25 c26 c27 c28 c29 show ?thesis
    by (elim conjE) (intro conjI, assumption+)
qed

text \<open>
  The claim as stated has every create, update and delete operation notify and re-throw.
  With the backend down, the three mutating operations of the staff store return normally,
  and \<^verbatim>\<open>createMenuItem\<close> re-throws without a notification.
\<close>

theorem failure_policy_counterexample:
  "reply_user queries_down (calls staff0) (CreateStaffMember ''ann@example.com'' ''secret'' ''{}'') =
     Rejects down
   \<and> fst (createStaffMember queries_down ''ann@example.com'' ''secret'' ''{}'' staff0) = Inr ()
   \<and> fst (updateStaffMember queries_down ''u1'' ''{}'' staff0) = Inr ()
   \<and> fst (deleteStaffMember queries_down ''u1'' staff0) = Inr ()
   \<and> reply_menuItem queries_down (calls pos0) (CreateMenuItem ''{}'') = Rejects down
   \<and> fst (createMenuItem queries_down ''{}'' pos0) = Inl down
   \<and> toasts (snd (createMenuItem queries_down ''{}'' pos0)) = []"
  by (simp add: createStaffMember_def createStaffMember_try_def updateStaffMember_def
      updateStaffMember_try_def deleteStaffMember_def deleteStaffMember_try_def
      createMenuItem_def createMenuItem_try_def monad_defs queries_down_def staff0_def pos0_def)

end
